theory Spec2Isabelle
  imports Complex_Main
begin

section \<open>The controllable quadrotor model\<close>

text \<open>
  A shallow embedding of the class \<open>ControllableDrone\<close> of
  \<^verbatim>\<open>visualization/controllable_drone_model.py\<close>.

  Conventions of the embedding:
  \<^item> a Python float (and a numpy \<open>float64\<close>) is a \<open>real\<close>: rounding, infinities and
    NaN are not part of the model, so a statement below is about the arithmetic the
    code writes down, carried out exactly; the one exception is the sum of the thrusts
    that the mixer builds, which is also stated on a model of the mixer in rounded
    double-precision arithmetic (\<open>mixed_thrusts_f64\<close>);
  \<^item> a numpy array of three (four) floats is a triple (quadruple) of reals;
  \<^item> the dictionaries with a fixed set of keys (\<open>control_input\<close>, \<open>forces\<close>,
    \<open>area_limits\<close>, \<open>sensor_noise\<close>, \<open>sensor_calibration\<close>) are records;
  \<^item> a method that mutates \<open>self\<close> takes the drone and returns the new drone;
  \<^item> every value the code draws from a random generator, and every session id the
    database hands out, is an extra argument of the method that draws it;
  \<^item> the only exception the modelled methods can raise themselves is the
    \<open>ValueError\<close> of \<open>math.sqrt\<close> on a negative argument, so the methods that reach
    \<open>math.sqrt\<close> return \<open>error + drone\<close>;
  \<^item> the geometry used for drawing, the wall-clock timestamps and the rows written to
    the database are not modelled; of the data logging only the field
    \<open>current_session_id\<close> is kept.
\<close>

subsection \<open>Vectors\<close>

type_synonym vec3 = "real \<times> real \<times> real"
type_synonym vec4 = "real \<times> real \<times> real \<times> real"

definition vx :: "vec3 \<Rightarrow> real" where
  "vx v = fst v"

definition vy :: "vec3 \<Rightarrow> real" where
  "vy v = fst (snd v)"

definition vz :: "vec3 \<Rightarrow> real" where
  "vz v = snd (snd v)"

definition vadd :: "vec3 \<Rightarrow> vec3 \<Rightarrow> vec3" where
  "vadd a b = (vx a + vx b, vy a + vy b, vz a + vz b)"

definition vsub :: "vec3 \<Rightarrow> vec3 \<Rightarrow> vec3" where
  "vsub a b = (vx a - vx b, vy a - vy b, vz a - vz b)"

definition vscale :: "vec3 \<Rightarrow> real \<Rightarrow> vec3" where
  "vscale a k = (vx a * k, vy a * k, vz a * k)"

definition vdiv :: "vec3 \<Rightarrow> real \<Rightarrow> vec3" where
  "vdiv a k = (vx a / k, vy a / k, vz a / k)"

text \<open>\<open>np.linalg.norm\<close> of a vector of three components.\<close>

definition linalg_norm :: "vec3 \<Rightarrow> real" where
  "linalg_norm a = sqrt (vx a * vx a + vy a * vy a + vz a * vz a)"

text \<open>\<open>np.clip(a, lo, hi)\<close> is \<open>minimum(maximum(a, lo), hi)\<close>.\<close>

definition clip :: "real \<Rightarrow> real \<Rightarrow> real \<Rightarrow> real" where
  "clip a lo hi = min (max a lo) hi"

definition clip3 :: "vec3 \<Rightarrow> real \<Rightarrow> real \<Rightarrow> vec3" where
  "clip3 a lo hi = (clip (vx a) lo hi, clip (vy a) lo hi, clip (vz a) lo hi)"

text \<open>
  \<open>random.uniform(a, b)\<close> is \<open>a + (b - a) * random()\<close>, where \<open>random()\<close> is a sample
  \<open>u\<close> of the half-open unit interval; the sample is the last argument.
\<close>

definition uniform :: "real \<Rightarrow> real \<Rightarrow> real \<Rightarrow> real" where
  "uniform a b u = a + (b - a) * u"

subsection \<open>The state of a drone\<close>

record control_input =
  thrust :: real
  pitch :: real
  roll :: real
  yaw :: real

record forces =
  f_thrust :: real
  f_drag :: real
  f_gravity :: real
  f_wind :: vec3

record area_limits =
  x_min :: real
  x_max :: real
  y_min :: real
  y_max :: real
  z_min :: real
  z_max :: real

record sensor_noise =
  gyro :: real
  accel :: real
  bias_gyro :: vec3
  bias_accel :: vec3

record sensor_calibration =
  gyro_scale :: vec3
  accel_scale :: vec3

datatype control_mode = MANUAL | AUTO

datatype error = ValueError

record drone =
  position :: vec3
  orientation :: vec3
  angular_velocity :: vec3
  velocity :: vec3
  linear_acceleration :: vec3
  control_input :: control_input
  propeller_thrusts :: vec4
  propeller_speeds :: vec4
  propeller_max_thrust :: real
  propeller_efficiency :: vec4
  forces :: forces
  area_limits :: area_limits
  control_mode :: control_mode
  target_position :: vec3
  target_counter :: int
  flight_time :: real
  distance_traveled :: real
  last_position :: vec3
  max_altitude :: real
  max_speed :: real
  current_session_id :: "int option"
  sensor_noise :: sensor_noise
  sensor_calibration :: sensor_calibration

text \<open>
  \<open>generate_random_target\<close>: three calls of \<open>random.uniform\<close>; the argument holds the
  three samples of the unit interval.
\<close>

definition generate_random_target :: "vec3 \<Rightarrow> vec3" where
  "generate_random_target u =
     (uniform (-6.0) 6.0 (vx u), uniform (-6.0) 6.0 (vy u), uniform 2.0 10.0 (vz u))"

text \<open>The constructor \<open>__init__\<close>; \<open>u\<close> are the samples behind the first target.\<close>

definition ControllableDrone :: "vec3 \<Rightarrow> drone" where
  "ControllableDrone u =
     \<lparr> position = (0.0, 0.0, 3.0),
       orientation = (0.0, 0.0, 0.0),
       angular_velocity = (0.0, 0.0, 0.0),
       velocity = (0.0, 0.0, 0.0),
       linear_acceleration = (0.0, 0.0, 0.0),
       control_input = \<lparr> thrust = 9.81, pitch = 0.0, roll = 0.0, yaw = 0.0 \<rparr>,
       propeller_thrusts = (2.4525, 2.4525, 2.4525, 2.4525),
       propeller_speeds = (1000.0, 1000.0, 1000.0, 1000.0),
       propeller_max_thrust = 6.0,
       propeller_efficiency = (0.95, 0.97, 0.96, 0.94),
       forces = \<lparr> f_thrust = 9.81, f_drag = 0.0, f_gravity = 9.81,
                  f_wind = (0.0, 0.0, 0.0) \<rparr>,
       area_limits = \<lparr> x_min = -8.0, x_max = 8.0, y_min = -8.0, y_max = 8.0,
                       z_min = 0.5, z_max = 15.0 \<rparr>,
       control_mode = MANUAL,
       target_position = generate_random_target u,
       target_counter = 0,
       flight_time = 0.0,
       distance_traveled = 0.0,
       last_position = (0.0, 0.0, 3.0),
       max_altitude = 0.0,
       max_speed = 0.0,
       current_session_id = None,
       sensor_noise = \<lparr> gyro = 0.01, accel = 0.1,
                        bias_gyro = (0.002, 0.001, -0.003),
                        bias_accel = (0.05, -0.03, 0.02) \<rparr>,
       sensor_calibration = \<lparr> gyro_scale = (1.02, 0.98, 1.01),
                              accel_scale = (0.99, 1.01, 1.03) \<rparr> \<rparr>"

subsection \<open>The propeller mixer\<close>

text \<open>
  The array \<open>thrusts\<close> of \<open>calculate_propeller_thrusts\<close> as it is first built, before
  the efficiencies are multiplied in and before the clipping.
\<close>

definition mixed_thrusts :: "real \<Rightarrow> real \<Rightarrow> real \<Rightarrow> real \<Rightarrow> vec4" where
  "mixed_thrusts total_thrust rl pt yw =
     (let base_thrust = total_thrust / 4.0;
          roll_correction = rl * 0.5;
          pitch_correction = pt * 0.5;
          yaw_correction = yw * 0.3
      in (base_thrust - roll_correction + pitch_correction - yaw_correction,
          base_thrust + roll_correction - pitch_correction - yaw_correction,
          base_thrust + roll_correction + pitch_correction + yaw_correction,
          base_thrust - roll_correction - pitch_correction + yaw_correction))"

definition calculate_propeller_thrusts ::
  "drone \<Rightarrow> real \<Rightarrow> real \<Rightarrow> real \<Rightarrow> real \<Rightarrow> vec4" where
  "calculate_propeller_thrusts s total_thrust rl pt yw =
     (case mixed_thrusts total_thrust rl pt yw of (t0, t1, t2, t3) \<Rightarrow>
      case propeller_efficiency s of (e0, e1, e2, e3) \<Rightarrow>
        (clip (t0 * e0) 0.1 (propeller_max_thrust s),
         clip (t1 * e1) 0.1 (propeller_max_thrust s),
         clip (t2 * e2) 0.1 (propeller_max_thrust s),
         clip (t3 * e3) 0.1 (propeller_max_thrust s)))"

text \<open>Sequencing of two steps, the first of which may raise.\<close>

definition bind_result :: "error + 'a \<Rightarrow> ('a \<Rightarrow> error + 'b) \<Rightarrow> error + 'b" where
  "bind_result m f = (case m of Inl e \<Rightarrow> Inl e | Inr x \<Rightarrow> f x)"

text \<open>
  One round of the loop of \<open>update_propeller_speeds\<close>. \<open>math.sqrt\<close> raises
  \<open>ValueError\<close> on a negative argument. (Where \<open>propeller_max_thrust\<close> is zero numpy
  divides to an infinity or a NaN without raising; the model divides to 0 there.)
\<close>

definition propeller_speed :: "real \<Rightarrow> real \<Rightarrow> error + real" where
  "propeller_speed t max_thrust =
     (let thrust_ratio = t / max_thrust
      in if thrust_ratio < 0 then Inl ValueError
         else Inr (500.0 + 1500.0 * sqrt thrust_ratio))"

definition update_propeller_speeds :: "drone \<Rightarrow> error + drone" where
  "update_propeller_speeds s =
     (case propeller_thrusts s of (t0, t1, t2, t3) \<Rightarrow>
        bind_result (propeller_speed t0 (propeller_max_thrust s)) (\<lambda>v0.
        bind_result (propeller_speed t1 (propeller_max_thrust s)) (\<lambda>v1.
        bind_result (propeller_speed t2 (propeller_max_thrust s)) (\<lambda>v2.
        bind_result (propeller_speed t3 (propeller_max_thrust s)) (\<lambda>v3.
          Inr (s\<lparr>propeller_speeds := (v0, v1, v2, v3)\<rparr>))))))"

subsection \<open>Manual commands and the mode switch\<close>

definition set_control_input ::
  "drone \<Rightarrow> real \<Rightarrow> real \<Rightarrow> real \<Rightarrow> real \<Rightarrow> error + drone" where
  "set_control_input s thrust_change pt rl yw =
     (let ci = \<lparr> thrust = clip (9.81 + thrust_change * 2.0) 5.0 20.0,
                 pitch = clip pt (-0.5) 0.5,
                 roll = clip rl (-0.5) 0.5,
                 yaw = clip yw (-0.3) 0.3 \<rparr>;
          s1 = s\<lparr>control_input := ci\<rparr>;
          s2 = s1\<lparr>propeller_thrusts :=
                   calculate_propeller_thrusts s1 (thrust ci) (roll ci) (pitch ci) (yaw ci)\<rparr>
      in update_propeller_speeds s2)"

text \<open>\<open>toggle_control_mode\<close>; \<open>u\<close> are the samples behind the fresh target.\<close>

definition toggle_control_mode :: "drone \<Rightarrow> vec3 \<Rightarrow> drone" where
  "toggle_control_mode s u =
     (if control_mode s = MANUAL
      then s\<lparr>control_mode := AUTO, target_position := generate_random_target u\<rparr>
      else s\<lparr>control_mode := MANUAL\<rparr>)"

subsection \<open>The autopilot\<close>

text \<open>
  The first block of the AUTO branch of \<open>auto_pilot\<close>: when the target is closer than
  1.0, a new target is drawn and the counter goes up. \<open>u\<close> are the samples behind the
  new target.
\<close>

definition distance_to_target :: "drone \<Rightarrow> real" where
  "distance_to_target s = linalg_norm (vsub (target_position s) (position s))"

definition next_waypoint :: "drone \<Rightarrow> vec3 \<Rightarrow> drone" where
  "next_waypoint s u =
     (if distance_to_target s < 1.0
      then s\<lparr>target_position := generate_random_target u,
             target_counter := target_counter s + 1\<rparr>
      else s)"

text \<open>
  The second block: the vector \<open>direction\<close>, from the target and the distance as they
  are after the first block.
\<close>

definition direction :: "drone \<Rightarrow> vec3" where
  "direction s =
     (let to_target = vsub (target_position s) (position s)
      in if distance_to_target s > 0.1
         then vdiv to_target (distance_to_target s)
         else (0.0, 0.0, 0.0))"

text \<open>
  \<open>auto_pilot\<close> returns the drone as it has changed it and the tuple
  \<open>(total_thrust, target_roll, target_pitch, target_yaw)\<close>.
\<close>

definition auto_pilot :: "drone \<Rightarrow> vec3 \<Rightarrow> drone \<times> real \<times> real \<times> real \<times> real" where
  "auto_pilot s u =
     (if control_mode s \<noteq> AUTO then (s, thrust (control_input s), 0, 0, 0)
      else
        let s1 = next_waypoint s u;
            target_pitch = - vx (direction s1) * 0.8;
            target_roll = vy (direction s1) * 0.8;
            target_yaw = 0.0;
            height_error = vz (target_position s1) - vz (position s1);
            thrust_correction = height_error * 0.5;
            total_thrust = clip (9.81 + thrust_correction) 5.0 20.0
        in (s1, total_thrust, target_roll, target_pitch, target_yaw))"

text \<open>
  The first statement of \<open>apply_control\<close>: the command \<open>(thrust, roll, pitch, yaw)\<close> of
  the current mode.
\<close>

definition control_command :: "drone \<Rightarrow> vec3 \<Rightarrow> drone \<times> real \<times> real \<times> real \<times> real" where
  "control_command s u =
     (if control_mode s = AUTO then auto_pilot s u
      else (s, thrust (control_input s), roll (control_input s),
               pitch (control_input s), yaw (control_input s)))"

text \<open>
  \<open>apply_control\<close>. \<open>u\<close> are the samples for a new target, \<open>r\<close> is the sample of
  \<open>random.random()\<close> that decides on a gust, \<open>w\<close> are the samples behind the wind.
\<close>

definition apply_control :: "drone \<Rightarrow> vec3 \<Rightarrow> real \<Rightarrow> vec3 \<Rightarrow> error + drone" where
  "apply_control s u r w =
     (case control_command s u of (s1, th, rl, pt, yw) \<Rightarrow>
        let s2 = s1\<lparr>angular_velocity := vscale (rl, pt, yw) 0.8,
                    forces := (forces s1)\<lparr>f_thrust := th\<rparr>\<rparr>;
            s3 = s2\<lparr>propeller_thrusts := calculate_propeller_thrusts s2 th rl pt yw\<rparr>
        in bind_result (update_propeller_speeds s3) (\<lambda>s4.
             Inr (s4\<lparr>forces := (forces s4)\<lparr>f_wind :=
                    (if r < 0.2
                     then (uniform (-0.3) 0.3 (vx w), uniform (-0.3) 0.3 (vy w),
                           uniform (-0.1) 0.1 (vz w))
                     else (0.0, 0.0, 0.0))\<rparr>\<rparr>)))"

subsection \<open>The boundary of the flight volume\<close>

text \<open>
  One axis of the second part of \<open>enforce_area_limits\<close>: the new velocity along the
  axis, from the clipped position \<open>p\<close>, the velocity \<open>v\<close> and the two faces.
\<close>

definition axis_repulsion :: "real \<Rightarrow> real \<Rightarrow> real \<Rightarrow> real \<Rightarrow> real" where
  "axis_repulsion p v lo hi =
     (let border_margin = 1.0
      in if p > hi - border_margin
         then (let repulsion_force = (hi - p - border_margin) * 3.0 in v - repulsion_force)
         else if p < lo + border_margin
         then (let repulsion_force = (p - lo - border_margin) * 3.0 in v + repulsion_force)
         else v)"

definition enforce_area_limits :: "drone \<Rightarrow> drone" where
  "enforce_area_limits s =
     (let limits = area_limits s;
          px = clip (vx (position s)) (x_min limits) (x_max limits);
          py = clip (vy (position s)) (y_min limits) (y_max limits);
          pz = clip (vz (position s)) (z_min limits) (z_max limits)
      in s\<lparr>position := (px, py, pz),
           velocity := (axis_repulsion px (vx (velocity s)) (x_min limits) (x_max limits),
                        axis_repulsion py (vy (velocity s)) (y_min limits) (y_max limits),
                        axis_repulsion pz (vz (velocity s)) (z_min limits) (z_max limits))\<rparr>)"

subsection \<open>The integration step\<close>

text \<open>One axis of the border damping at the end of \<open>update_physics\<close>.\<close>

definition axis_damping :: "real \<Rightarrow> real \<Rightarrow> real \<Rightarrow> real \<Rightarrow> real" where
  "axis_damping p v lo hi =
     (let border_damping = 0.7
      in if p \<ge> hi - 0.5 \<or> p \<le> lo + 0.5 then v * border_damping else v)"

definition update_physics :: "drone \<Rightarrow> real \<Rightarrow> drone" where
  "update_physics s dt =
     (let max_angle = pi / 4;
          orientation1 = clip3 (vadd (orientation s) (vscale (angular_velocity s) dt))
                           (- max_angle) max_angle;
          rl = vx orientation1;
          pt = vy orientation1;
          thrust_vector = vscale (sin pt * cos rl, - sin rl * cos pt, cos rl * cos pt)
                            (f_thrust (forces s));
          gravity_force = (0, 0, - f_gravity (forces s));
          drag_force = vscale (velocity s) (- 0.2);
          total_force = vadd (vadd (vadd thrust_vector gravity_force) drag_force)
                          (f_wind (forces s));
          acceleration = total_force;
          velocity1 = vadd (velocity s) (vscale acceleration dt);
          position1 = vadd (position s) (vscale velocity1 dt);
          s1 = s\<lparr>orientation := orientation1,
                 linear_acceleration := acceleration,
                 velocity := velocity1,
                 position := position1,
                 flight_time := flight_time s + dt,
                 distance_traveled :=
                   distance_traveled s + linalg_norm (vsub position1 (last_position s)),
                 last_position := position1,
                 max_altitude := max (max_altitude s) (vz position1),
                 max_speed := max (max_speed s) (linalg_norm velocity1)\<rparr>;
          s2 = enforce_area_limits s1;
          limits = area_limits s2
      in s2\<lparr>velocity :=
              (axis_damping (vx (position s2)) (vx (velocity s2)) (x_min limits) (x_max limits),
               axis_damping (vy (position s2)) (vy (velocity s2)) (y_min limits) (y_max limits),
               axis_damping (vz (position s2)) (vz (velocity s2)) (z_min limits) (z_max limits))\<rparr>)"

subsection \<open>Calibration, data logging and reset\<close>

text \<open>
  \<open>calibrate_sensors\<close>; \<open>bg\<close> and \<open>ba\<close> are the two arrays that
  \<open>np.random.normal\<close> returns.
\<close>

definition calibrate_sensors :: "drone \<Rightarrow> vec3 \<Rightarrow> vec3 \<Rightarrow> drone" where
  "calibrate_sensors s bg ba =
     s\<lparr>sensor_noise := (sensor_noise s)\<lparr>bias_gyro := bg, bias_accel := ba\<rparr>\<rparr>"

text \<open>
  \<open>start_data_logging\<close>; \<open>new_id\<close> is the id that
  \<open>database.start_new_flight_session()\<close> returns.
\<close>

definition start_data_logging :: "drone \<Rightarrow> int \<Rightarrow> drone" where
  "start_data_logging s new_id =
     (if current_session_id s = None then s\<lparr>current_session_id := Some new_id\<rparr> else s)"

definition stop_data_logging :: "drone \<Rightarrow> drone" where
  "stop_data_logging s =
     (if current_session_id s \<noteq> None then s\<lparr>current_session_id := None\<rparr> else s)"

text \<open>The truth value Python gives \<open>self.current_session_id\<close> in a condition.\<close>

definition truthy :: "int option \<Rightarrow> bool" where
  "truthy i = (case i of None \<Rightarrow> False | Some n \<Rightarrow> n \<noteq> 0)"

definition reset :: "drone \<Rightarrow> vec3 \<Rightarrow> vec3 \<Rightarrow> int \<Rightarrow> drone" where
  "reset s bg ba new_id =
     (let s0 = (if truthy (current_session_id s) then stop_data_logging s else s);
          s1 = s0\<lparr>position := (0.0, 0.0, 3.0),
                  orientation := (0.0, 0.0, 0.0),
                  velocity := (0.0, 0.0, 0.0),
                  angular_velocity := (0.0, 0.0, 0.0),
                  linear_acceleration := (0.0, 0.0, 0.0),
                  control_input := \<lparr> thrust = 9.81, pitch = 0.0, roll = 0.0, yaw = 0.0 \<rparr>,
                  propeller_thrusts := (2.4525, 2.4525, 2.4525, 2.4525),
                  propeller_speeds := (1000.0, 1000.0, 1000.0, 1000.0),
                  flight_time := 0.0,
                  distance_traveled := 0.0,
                  last_position := (0.0, 0.0, 3.0),
                  max_altitude := 0.0,
                  max_speed := 0.0,
                  target_counter := 0\<rparr>;
          s2 = calibrate_sensors s1 bg ba
      in start_data_logging s2 new_id)"

subsection \<open>Predicates of the properties\<close>

text \<open>The sum of the four components of a thrust array.\<close>

definition sum4 :: "vec4 \<Rightarrow> real" where
  "sum4 t = (case t of (t0, t1, t2, t3) \<Rightarrow> t0 + t1 + t2 + t3)"

text \<open>Every component of a thrust array lies between \<open>lo\<close> and \<open>hi\<close>.\<close>

definition each_within :: "vec4 \<Rightarrow> real \<Rightarrow> real \<Rightarrow> bool" where
  "each_within t lo hi =
     (case t of (t0, t1, t2, t3) \<Rightarrow>
        lo \<le> t0 \<and> t0 \<le> hi \<and> lo \<le> t1 \<and> t1 \<le> hi \<and>
        lo \<le> t2 \<and> t2 \<le> hi \<and> lo \<le> t3 \<and> t3 \<le> hi)"

text \<open>The ranges the specification declares for a control input.\<close>

definition valid_control_input :: "control_input \<Rightarrow> bool" where
  "valid_control_input c =
     (5.0 \<le> thrust c \<and> thrust c \<le> 20.0 \<and>
      -0.5 \<le> pitch c \<and> pitch c \<le> 0.5 \<and>
      -0.5 \<le> roll c \<and> roll c \<le> 0.5 \<and>
      -0.3 \<le> yaw c \<and> yaw c \<le> 0.3)"

text \<open>
  A command \<open>(thrust, roll, pitch, yaw)\<close>, in the order in which \<open>auto_pilot\<close>
  returns it, within the declared ranges of a control input.
\<close>

definition command_valid :: "real \<times> real \<times> real \<times> real \<Rightarrow> bool" where
  "command_valid c =
     (case c of (th, rl, pt, yw) \<Rightarrow>
        valid_control_input \<lparr> thrust = th, pitch = pt, roll = rl, yaw = yw \<rparr>)"

text \<open>The ranges the autopilot keeps: roll and pitch reach 0.8, the yaw is 0.\<close>

definition auto_command_valid :: "real \<times> real \<times> real \<times> real \<Rightarrow> bool" where
  "auto_command_valid c =
     (case c of (th, rl, pt, yw) \<Rightarrow>
        5.0 \<le> th \<and> th \<le> 20.0 \<and> -0.8 \<le> rl \<and> rl \<le> 0.8 \<and>
        -0.8 \<le> pt \<and> pt \<le> 0.8 \<and> yw = 0)"

text \<open>The three samples of \<open>random()\<close> lie in the half-open unit interval.\<close>

definition unit_samples :: "vec3 \<Rightarrow> bool" where
  "unit_samples u =
     (0 \<le> vx u \<and> vx u < 1 \<and> 0 \<le> vy u \<and> vy u < 1 \<and> 0 \<le> vz u \<and> vz u < 1)"

text \<open>A target within the volume that waypoints are drawn from.\<close>

definition target_in_range :: "vec3 \<Rightarrow> bool" where
  "target_in_range t =
     (-6.0 \<le> vx t \<and> vx t \<le> 6.0 \<and> -6.0 \<le> vy t \<and> vy t \<le> 6.0 \<and>
      2.0 \<le> vz t \<and> vz t \<le> 10.0)"

text \<open>The limits describe a box: on no axis does the lower face lie above the upper.\<close>

definition valid_limits :: "area_limits \<Rightarrow> bool" where
  "valid_limits l = (x_min l \<le> x_max l \<and> y_min l \<le> y_max l \<and> z_min l \<le> z_max l)"

definition within_limits :: "vec3 \<Rightarrow> area_limits \<Rightarrow> bool" where
  "within_limits p l =
     (x_min l \<le> vx p \<and> vx p \<le> x_max l \<and>
      y_min l \<le> vy p \<and> vy p \<le> y_max l \<and>
      z_min l \<le> vz p \<and> vz p \<le> z_max l)"

definition orientation_bounded :: "vec3 \<Rightarrow> bool" where
  "orientation_bounded a =
     (\<bar>vx a\<bar> \<le> pi / 4 \<and> \<bar>vy a\<bar> \<le> pi / 4 \<and> \<bar>vz a\<bar> \<le> pi / 4)"

text \<open>
  The value of the range from \<open>lo\<close> to \<open>hi\<close> that lies nearest to \<open>a\<close>: \<open>a\<close> itself
  when it is within the range, otherwise the end of the range on its side.
\<close>

definition nearest_valid :: "real \<Rightarrow> real \<Rightarrow> real \<Rightarrow> real" where
  "nearest_valid a lo hi = (if a < lo then lo else if hi < a then hi else a)"

subsection \<open>The mixer in float64 arithmetic\<close>

text \<open>
  For the one question where rounding decides, whether the four thrusts add up to the
  total exactly, the first lines of \<open>calculate_propeller_thrusts\<close> are modelled a second
  time, with every operation rounded as numpy's \<open>float64\<close> rounds it.

  \<open>rne\<close> rounds a real to the nearest integer, a tie to the even one. \<open>f64\<close> rounds a
  real to the nearest number with 53 significant bits, a tie to the even significand.
  The exponent is not bounded: \<open>f64\<close> is the rounding of IEEE 754 double precision for
  results of magnitude from \<open>2^-1022\<close> up to the largest double (and for 0); overflow
  and subnormal numbers are not modelled.
\<close>

definition rne :: "real \<Rightarrow> int" where
  "rne y =
     (let f = \<lfloor>y\<rfloor>
      in if y - of_int f < 1 / 2 then f
         else if 1 / 2 < y - of_int f then f + 1
         else if even f then f else f + 1)"

definition f64 :: "real \<Rightarrow> real" where
  "f64 x =
     (if x = 0 then 0
      else let q = 2 powr (of_int \<lfloor>log 2 \<bar>x\<bar>\<rfloor> - 52)
           in of_int (rne (x / q)) * q)"

text \<open>The four operations on doubles: the exact result, rounded.\<close>

definition fadd :: "real \<Rightarrow> real \<Rightarrow> real" where
  "fadd a b = f64 (a + b)"

definition fsub :: "real \<Rightarrow> real \<Rightarrow> real" where
  "fsub a b = f64 (a - b)"

definition fmul :: "real \<Rightarrow> real \<Rightarrow> real" where
  "fmul a b = f64 (a * b)"

definition fdiv :: "real \<Rightarrow> real \<Rightarrow> real" where
  "fdiv a b = f64 (a / b)"

text \<open>
  The array \<open>thrusts\<close> as it is first built, in doubles. The arguments are doubles; the
  literals 4.0 and 0.5 are doubles as they stand, the literal 0.3 is the double nearest
  to it; Python evaluates each sum from left to right.
\<close>

definition mixed_thrusts_f64 :: "real \<Rightarrow> real \<Rightarrow> real \<Rightarrow> real \<Rightarrow> vec4" where
  "mixed_thrusts_f64 total_thrust rl pt yw =
     (let base_thrust = fdiv total_thrust 4.0;
          roll_correction = fmul rl 0.5;
          pitch_correction = fmul pt 0.5;
          yaw_correction = fmul yw (f64 0.3)
      in (fsub (fadd (fsub base_thrust roll_correction) pitch_correction) yaw_correction,
          fsub (fsub (fadd base_thrust roll_correction) pitch_correction) yaw_correction,
          fadd (fadd (fadd base_thrust roll_correction) pitch_correction) yaw_correction,
          fadd (fsub (fsub base_thrust roll_correction) pitch_correction) yaw_correction))"

text \<open>The sum of the four components taken in doubles, from left to right.\<close>

definition fsum4 :: "vec4 \<Rightarrow> real" where
  "fsum4 t = (case t of (t0, t1, t2, t3) \<Rightarrow> fadd (fadd (fadd t0 t1) t2) t3)"

text \<open>The unit roundoff of double precision.\<close>

definition unit_roundoff :: real where
  "unit_roundoff = 1 / 2 ^ 53"

text \<open>
  \<open>v'\<close> is \<open>v\<close> computed with at most \<open>k\<close> roundings in a row, where \<open>m\<close> bounds the
  magnitudes that were added up.
\<close>

definition within_roundings :: "nat \<Rightarrow> real \<Rightarrow> real \<Rightarrow> real \<Rightarrow> bool" where
  "within_roundings k m v' v =
     (\<bar>v' - v\<bar> \<le> ((1 + unit_roundoff) ^ k - 1) * m \<and> \<bar>v\<bar> \<le> m)"

section \<open>Vectors and clipping\<close>

lemma vx_tuple [simp]: "vx (a, b, c) = a"
  by (simp add: vx_def)

lemma vy_tuple [simp]: "vy (a, b, c) = b"
  by (simp add: vy_def)

lemma vz_tuple [simp]: "vz (a, b, c) = c"
  by (simp add: vz_def)

lemma clip_bounds: "lo \<le> hi \<Longrightarrow> lo \<le> clip a lo hi \<and> clip a lo hi \<le> hi"
  by (simp add: clip_def)

lemma abs_le_norm_x: "\<bar>x\<bar> \<le> sqrt (x * x + y * y + z * z)"
proof -
  have "x * x \<le> x * x + y * y + z * z" by simp
  then have "sqrt (x * x) \<le> sqrt (x * x + y * y + z * z)" by (rule real_sqrt_le_mono)
  then show ?thesis by simp
qed

lemma abs_le_norm_y: "\<bar>y\<bar> \<le> sqrt (x * x + y * y + z * z)"
  using abs_le_norm_x [of y x z] by (simp add: add.commute)

section \<open>Properties of the mixer\<close>

lemma propeller_speed_clipped: "\<exists>v. propeller_speed (clip a 0.1 m) m = Inr v"
proof -
  have "\<not> clip a 0.1 m / m < 0"
  proof (cases "0.1 \<le> m")
    case True
    then have "0 < clip a 0.1 m" and "0 < m" by (simp_all add: clip_def)
    then show ?thesis by (simp add: divide_less_0_iff)
  next
    case False
    then have "clip a 0.1 m = m" by (simp add: clip_def)
    then show ?thesis by (simp add: divide_less_0_iff)
  qed
  then show ?thesis by (simp add: propeller_speed_def Let_def)
qed

lemma update_propeller_speeds_clipped:
  assumes "propeller_thrusts s = calculate_propeller_thrusts s0 a b c d"
    and "propeller_max_thrust s0 = propeller_max_thrust s"
  shows "\<exists>v. update_propeller_speeds s = Inr (s\<lparr>propeller_speeds := v\<rparr>)"
proof -
  obtain t0 t1 t2 t3 where t: "mixed_thrusts a b c d = (t0, t1, t2, t3)"
    by (cases "mixed_thrusts a b c d") auto
  obtain e0 e1 e2 e3 where e: "propeller_efficiency s0 = (e0, e1, e2, e3)"
    by (cases "propeller_efficiency s0") auto
  let ?m = "propeller_max_thrust s"
  have p: "propeller_thrusts s =
      (clip (t0 * e0) 0.1 ?m, clip (t1 * e1) 0.1 ?m, clip (t2 * e2) 0.1 ?m, clip (t3 * e3) 0.1 ?m)"
    using assms by (simp add: calculate_propeller_thrusts_def t e)
  obtain v0 where v0: "propeller_speed (clip (t0 * e0) 0.1 ?m) ?m = Inr v0"
    using propeller_speed_clipped by blast
  obtain v1 where v1: "propeller_speed (clip (t1 * e1) 0.1 ?m) ?m = Inr v1"
    using propeller_speed_clipped by blast
  obtain v2 where v2: "propeller_speed (clip (t2 * e2) 0.1 ?m) ?m = Inr v2"
    using propeller_speed_clipped by blast
  obtain v3 where v3: "propeller_speed (clip (t3 * e3) 0.1 ?m) ?m = Inr v3"
    using propeller_speed_clipped by blast
  have "update_propeller_speeds s = Inr (s\<lparr>propeller_speeds := (v0, v1, v2, v3)\<rparr>)"
    by (simp add: update_propeller_speeds_def p v0 v1 v2 v3 bind_result_def)
  then show ?thesis by blast
qed

text \<open>
  C9. Each of the four thrusts that the mixer returns lies between 0.1 and
  \<open>propeller_max_thrust\<close>, for every command (so for every valid control input) and for
  every choice of the efficiencies, as long as \<open>propeller_max_thrust\<close> is not below 0.1;
  the constructor sets it to 6.0.
\<close>

theorem calculate_propeller_thrusts_within:
  "0.1 \<le> propeller_max_thrust s \<Longrightarrow>
   each_within (calculate_propeller_thrusts s total_thrust rl pt yw) 0.1 (propeller_max_thrust s)"
proof -
  assume m: "0.1 \<le> propeller_max_thrust s"
  obtain t0 t1 t2 t3 where t: "mixed_thrusts total_thrust rl pt yw = (t0, t1, t2, t3)"
    by (cases "mixed_thrusts total_thrust rl pt yw") auto
  obtain e0 e1 e2 e3 where e: "propeller_efficiency s = (e0, e1, e2, e3)"
    by (cases "propeller_efficiency s") auto
  show ?thesis
    using clip_bounds [OF m]
    by (simp add: calculate_propeller_thrusts_def t e each_within_def)
qed

theorem calculate_propeller_thrusts_within_witness:
  "0.1 \<le> propeller_max_thrust (ControllableDrone (0, 0, 0)) \<and>
   each_within (calculate_propeller_thrusts (ControllableDrone (0, 0, 0)) 20 0.5 0.5 0.3) 0.1 6"
  using calculate_propeller_thrusts_within [of "ControllableDrone (0, 0, 0)" 20 "0.5" "0.5" "0.3"]
  by (simp add: ControllableDrone_def)

section \<open>Manual commands\<close>

lemma set_control_input_result:
  "\<exists>t v. set_control_input s thrust_change pt rl yw =
     Inr (s\<lparr>control_input :=
              \<lparr> thrust = clip (9.81 + thrust_change * 2.0) 5.0 20.0,
                pitch = clip pt (-0.5) 0.5,
                roll = clip rl (-0.5) 0.5,
                yaw = clip yw (-0.3) 0.3 \<rparr>,
            propeller_thrusts := t,
            propeller_speeds := v\<rparr>)"
proof -
  let ?ci = "\<lparr> thrust = clip (9.81 + thrust_change * 2.0) 5.0 20.0,
                 pitch = clip pt (-0.5) 0.5,
                 roll = clip rl (-0.5) 0.5,
                 yaw = clip yw (-0.3) 0.3 \<rparr>"
  let ?s1 = "s\<lparr>control_input := ?ci\<rparr>"
  let ?t = "calculate_propeller_thrusts ?s1 (thrust ?ci) (roll ?ci) (pitch ?ci) (yaw ?ci)"
  let ?s2 = "?s1\<lparr>propeller_thrusts := ?t\<rparr>"
  have eq: "set_control_input s thrust_change pt rl yw = update_propeller_speeds ?s2"
    unfolding set_control_input_def Let_def ..
  have a: "propeller_thrusts ?s2 = ?t"
    by simp
  have b: "propeller_max_thrust ?s1 = propeller_max_thrust ?s2" by simp
  obtain v where v: "update_propeller_speeds ?s2 = Inr (?s2\<lparr>propeller_speeds := v\<rparr>)"
    using update_propeller_speeds_clipped [OF a b] by blast
  have "set_control_input s thrust_change pt rl yw = Inr (?s2\<lparr>propeller_speeds := v\<rparr>)"
    using eq v by (rule trans)
  then show ?thesis by (intro exI)
qed


lemma clipped_input_valid:
  "valid_control_input
     \<lparr> thrust = clip (9.81 + thrust_change * 2.0) 5.0 20.0,
       pitch = clip pt (-0.5) 0.5,
       roll = clip rl (-0.5) 0.5,
       yaw = clip yw (-0.3) 0.3 \<rparr>"
  using clip_bounds [of 5 20 "9.81 + thrust_change * 2.0"]
    clip_bounds [of "-0.5" "0.5" pt] clip_bounds [of "-0.5" "0.5" rl]
    clip_bounds [of "-0.3" "0.3" yw]
  by (simp add: valid_control_input_def)

lemma clip_nearest: "lo \<le> hi \<Longrightarrow> clip a lo hi = nearest_valid a lo hi"
  by (simp add: clip_def nearest_valid_def)

lemma nearest_valid_nearest:
  "lo \<le> v \<Longrightarrow> v \<le> hi \<Longrightarrow> \<bar>nearest_valid a lo hi - a\<bar> \<le> \<bar>v - a\<bar>"
  by (simp add: nearest_valid_def)

text \<open>
  C6. \<open>set_control_input\<close> returns normally for all four real arguments (the square root
  in \<open>update_propeller_speeds\<close> never sees a negative ratio). The control input it has
  stored lies within the declared ranges (thrust in [5, 20], pitch and roll in
  [-0.5, 0.5], yaw in [-0.3, 0.3]) and is the command clamped: the thrust is the value
  of [5, 20] nearest to \<open>9.81 + 2 * thrust_change\<close>, and pitch, roll and yaw are the
  values of their ranges nearest to the arguments, hence the arguments themselves when
  these are in range.
\<close>

theorem set_control_input_succeeds:
  "\<exists>s'. set_control_input s thrust_change pt rl yw = Inr s' \<and>
        valid_control_input (control_input s') \<and>
        thrust (control_input s') = nearest_valid (9.81 + thrust_change * 2.0) 5.0 20.0 \<and>
        pitch (control_input s') = nearest_valid pt (-0.5) 0.5 \<and>
        roll (control_input s') = nearest_valid rl (-0.5) 0.5 \<and>
        yaw (control_input s') = nearest_valid yw (-0.3) 0.3"
proof -
  obtain t v where r: "set_control_input s thrust_change pt rl yw =
     Inr (s\<lparr>control_input :=
              \<lparr> thrust = clip (9.81 + thrust_change * 2.0) 5.0 20.0,
                pitch = clip pt (-0.5) 0.5,
                roll = clip rl (-0.5) 0.5,
                yaw = clip yw (-0.3) 0.3 \<rparr>,
            propeller_thrusts := t,
            propeller_speeds := v\<rparr>)" (is "_ = Inr ?s'")
    using set_control_input_result by blast
  have "valid_control_input (control_input ?s')"
    using clipped_input_valid [of thrust_change pt rl yw] by simp
  moreover have "thrust (control_input ?s') = nearest_valid (9.81 + thrust_change * 2.0) 5.0 20.0"
    using clip_nearest [of 5 20 "9.81 + thrust_change * 2.0"] by simp
  moreover have "pitch (control_input ?s') = nearest_valid pt (-0.5) 0.5"
    using clip_nearest [of "-0.5" "0.5" pt] by simp
  moreover have "roll (control_input ?s') = nearest_valid rl (-0.5) 0.5"
    using clip_nearest [of "-0.5" "0.5" rl] by simp
  moreover have "yaw (control_input ?s') = nearest_valid yw (-0.3) 0.3"
    using clip_nearest [of "-0.3" "0.3" yw] by simp
  ultimately show ?thesis using r by blast
qed

section \<open>The autopilot\<close>

lemma direction_x_bounded: "\<bar>vx (direction s)\<bar> \<le> 1"
proof (cases "distance_to_target s > 0.1")
  case True
  let ?t = "vsub (target_position s) (position s)"
  have "\<bar>vx ?t\<bar> \<le> distance_to_target s"
    unfolding distance_to_target_def linalg_norm_def by (rule abs_le_norm_x)
  with True have "\<bar>vx ?t / distance_to_target s\<bar> \<le> 1" by simp
  with True show ?thesis by (simp add: direction_def vdiv_def Let_def)
next
  case False
  then show ?thesis by (simp add: direction_def)
qed

lemma direction_y_bounded: "\<bar>vy (direction s)\<bar> \<le> 1"
proof (cases "distance_to_target s > 0.1")
  case True
  let ?t = "vsub (target_position s) (position s)"
  have "\<bar>vy ?t\<bar> \<le> distance_to_target s"
    unfolding distance_to_target_def linalg_norm_def by (rule abs_le_norm_y)
  with True have "\<bar>vy ?t / distance_to_target s\<bar> \<le> 1" by simp
  with True show ?thesis by (simp add: direction_def vdiv_def Let_def)
next
  case False
  then show ?thesis by (simp add: direction_def)
qed

lemma auto_pilot_command:
  "control_mode s = AUTO \<Longrightarrow>
   snd (auto_pilot s u) =
     (clip (9.81 + (vz (target_position (next_waypoint s u)) - vz (position (next_waypoint s u))) * 0.5)
        5.0 20.0,
      vy (direction (next_waypoint s u)) * 0.8,
      - vx (direction (next_waypoint s u)) * 0.8,
      0)"
  by (simp add: auto_pilot_def Let_def)

lemma auto_pilot_state: "control_mode s = AUTO \<Longrightarrow> fst (auto_pilot s u) = next_waypoint s u"
  by (simp add: auto_pilot_def Let_def)

lemma auto_command:
  assumes "control_mode s = AUTO"
  shows "auto_command_valid (snd (control_command s u))"
proof -
  let ?s1 = "next_waypoint s u"
  have x: "\<bar>vx (direction ?s1)\<bar> \<le> 1" by (rule direction_x_bounded)
  have y: "\<bar>vy (direction ?s1)\<bar> \<le> 1" by (rule direction_y_bounded)
  have c: "5 \<le> clip (9.81 + (vz (target_position ?s1) - vz (position ?s1)) * 0.5) 5.0 20.0 \<and>
        clip (9.81 + (vz (target_position ?s1) - vz (position ?s1)) * 0.5) 5.0 20.0 \<le> 20"
    using clip_bounds [of 5 20] by simp
  show ?thesis
    using assms x y c
    by (simp add: control_command_def auto_pilot_command auto_command_valid_def abs_le_iff)
qed

lemma manual_command:
  assumes "control_mode s = MANUAL"
  shows "\<exists>s'. set_control_input s thrust_change pt rl yw = Inr s' \<and>
          command_valid (snd (control_command s' u))"
proof -
  obtain t v where r: "set_control_input s thrust_change pt rl yw =
     Inr (s\<lparr>control_input :=
              \<lparr> thrust = clip (9.81 + thrust_change * 2.0) 5.0 20.0,
                pitch = clip pt (-0.5) 0.5,
                roll = clip rl (-0.5) 0.5,
                yaw = clip yw (-0.3) 0.3 \<rparr>,
            propeller_thrusts := t,
            propeller_speeds := v\<rparr>)" (is "_ = Inr ?s'")
    using set_control_input_result by blast
  have "command_valid (snd (control_command ?s' u))"
    using clipped_input_valid [of thrust_change pt rl yw] assms
    by (simp add: control_command_def command_valid_def)
  with r show ?thesis by blast
qed

text \<open>
  C3, as amended. In MANUAL mode the command that \<open>apply_control\<close> takes after a call of
  \<open>set_control_input\<close> lies within the declared ranges. In AUTO mode the thrust lies in
  [5, 20] and the yaw is 0, while roll and pitch are \<open>0.8\<close> times a component of a vector
  of length at most 1: they lie in [-0.8, 0.8], and no clipping brings them into
  [-0.5, 0.5].
\<close>

theorem control_command_ranges:
  "(control_mode m = MANUAL \<longrightarrow>
      (\<exists>s'. set_control_input m thrust_change pt rl yw = Inr s' \<and>
            command_valid (snd (control_command s' u)))) \<and>
   (control_mode a = AUTO \<longrightarrow> auto_command_valid (snd (control_command a u')))"
  using manual_command auto_command by blast

theorem control_command_ranges_witness:
  "control_mode (ControllableDrone (0, 0, 0)) = MANUAL \<and>
   (\<exists>s'. set_control_input (ControllableDrone (0, 0, 0)) 100 1 (-1) 1 = Inr s' \<and>
         command_valid (snd (control_command s' (0, 0, 0)))) \<and>
   control_mode (toggle_control_mode (ControllableDrone (0, 0, 0)) (11 / 12, 1 / 2, 1 / 8)) = AUTO \<and>
   auto_command_valid (snd (control_command
       (toggle_control_mode (ControllableDrone (0, 0, 0)) (11 / 12, 1 / 2, 1 / 8)) (0, 0, 0)))"
proof -
  have m: "control_mode (ControllableDrone (0, 0, 0)) = MANUAL"
    by (simp add: ControllableDrone_def)
  have a: "control_mode (toggle_control_mode (ControllableDrone (0, 0, 0)) (11 / 12, 1 / 2, 1 / 8)) = AUTO"
    by (simp add: toggle_control_mode_def ControllableDrone_def)
  show ?thesis
    using m a control_command_ranges [of "ControllableDrone (0, 0, 0)" 100 1 "-1" 1 "(0, 0, 0)"
        "toggle_control_mode (ControllableDrone (0, 0, 0)) (11 / 12, 1 / 2, 1 / 8)" "(0, 0, 0)"]
    by blast
qed

lemma sqrt25: "sqrt 25 = 5"
  using real_sqrt_abs [of 5] by simp

text \<open>
  C3, as stated, fails in AUTO mode: a drone at (0, 0, 3) that has just been switched to
  AUTO with the target (5, 0, 3) is commanded the pitch \<open>-0.8\<close>.
\<close>

theorem control_command_counterexample:
  "\<not> command_valid (snd (control_command
        (toggle_control_mode (ControllableDrone (0, 0, 0)) (11 / 12, 1 / 2, 1 / 8)) (0, 0, 0)))"
proof -
  let ?s = "toggle_control_mode (ControllableDrone (0, 0, 0)) (11 / 12, 1 / 2, 1 / 8)"
  have m: "control_mode ?s = AUTO"
    by (simp add: toggle_control_mode_def ControllableDrone_def)
  have t: "target_position ?s = (5, 0, 3)"
    by (simp add: toggle_control_mode_def ControllableDrone_def generate_random_target_def
        uniform_def)
  have p: "position ?s = (0, 0, 3)"
    by (simp add: toggle_control_mode_def ControllableDrone_def)
  have d: "distance_to_target ?s = 5"
    by (simp add: distance_to_target_def t p linalg_norm_def vsub_def sqrt25)
  have n: "next_waypoint ?s (0, 0, 0) = ?s"
    by (simp add: next_waypoint_def d)
  have dir: "direction ?s = (1, 0, 0)"
    by (simp add: direction_def d t p vsub_def vdiv_def)
  have "snd (control_command ?s (0, 0, 0)) = (9.81, 0, -0.8, 0)"
    by (simp add: control_command_def m auto_pilot_command n dir t p clip_def)
  then show ?thesis
    by (simp add: command_valid_def valid_control_input_def)
qed

section \<open>Waypoints and the direction to the target\<close>

lemma apply_control_result:
  assumes "control_command s u = (s1, th, rl, pt, yw)"
  shows "\<exists>t v. apply_control s u r w =
     Inr (s1\<lparr>angular_velocity := vscale (rl, pt, yw) 0.8,
            propeller_thrusts := t,
            propeller_speeds := v,
            forces := (forces s1)\<lparr>f_thrust := th,
                        f_wind := (if r < 0.2
                                   then (uniform (-0.3) 0.3 (vx w), uniform (-0.3) 0.3 (vy w),
                                         uniform (-0.1) 0.1 (vz w))
                                   else (0.0, 0.0, 0.0))\<rparr>\<rparr>)"
proof -
  let ?s2 = "s1\<lparr>angular_velocity := vscale (rl, pt, yw) 0.8,
                 forces := (forces s1)\<lparr>f_thrust := th\<rparr>\<rparr>"
  let ?t = "calculate_propeller_thrusts ?s2 th rl pt yw"
  let ?s3 = "?s2\<lparr>propeller_thrusts := ?t\<rparr>"
  have a: "propeller_thrusts ?s3 = ?t" by simp
  have b: "propeller_max_thrust ?s2 = propeller_max_thrust ?s3" by simp
  obtain v where v: "update_propeller_speeds ?s3 = Inr (?s3\<lparr>propeller_speeds := v\<rparr>)"
    using update_propeller_speeds_clipped [OF a b] by blast
  let ?wind = "if r < 0.2
               then (uniform (-0.3) 0.3 (vx w), uniform (-0.3) 0.3 (vy w),
                     uniform (-0.1) 0.1 (vz w))
               else (0.0, 0.0, 0.0)"
  have "apply_control s u r w =
      bind_result (update_propeller_speeds ?s3)
        (\<lambda>s4. Inr (s4\<lparr>forces := (forces s4)\<lparr>f_wind := ?wind\<rparr>\<rparr>))"
    by (simp only: apply_control_def assms prod.case Let_def)
  then have "apply_control s u r w =
      Inr ((?s3\<lparr>propeller_speeds := v\<rparr>)
             \<lparr>forces := (forces (?s3\<lparr>propeller_speeds := v\<rparr>))\<lparr>f_wind := ?wind\<rparr>\<rparr>)"
    by (simp only: v bind_result_def sum.case)
  then have "apply_control s u r w =
     Inr (s1\<lparr>angular_velocity := vscale (rl, pt, yw) 0.8,
            propeller_thrusts := ?t,
            propeller_speeds := v,
            forces := (forces s1)\<lparr>f_thrust := th, f_wind := ?wind\<rparr>\<rparr>)"
    by simp
  then show ?thesis by (intro exI)
qed

lemma generate_random_target_in_range:
  assumes "unit_samples u"
  shows "target_in_range (generate_random_target u)"
  using assms
  by (simp add: unit_samples_def target_in_range_def generate_random_target_def uniform_def)

lemma apply_control_auto_target:
  assumes "control_mode s = AUTO"
  shows "\<exists>s'. apply_control s u r w = Inr s' \<and>
      target_position s' = target_position (next_waypoint s u) \<and>
      target_counter s' = target_counter (next_waypoint s u)"
proof -
  obtain th rl pt yw where "snd (auto_pilot s u) = (th, rl, pt, yw)"
    using prod_cases4 by blast
  then have c: "control_command s u = (next_waypoint s u, th, rl, pt, yw)"
    using assms auto_pilot_state [OF assms, of u]
    by (simp add: control_command_def prod_eq_iff)
  obtain t v where "apply_control s u r w =
     Inr ((next_waypoint s u)\<lparr>angular_velocity := vscale (rl, pt, yw) 0.8,
            propeller_thrusts := t,
            propeller_speeds := v,
            forces := (forces (next_waypoint s u))\<lparr>f_thrust := th,
                        f_wind := (if r < 0.2
                                   then (uniform (-0.3) 0.3 (vx w), uniform (-0.3) 0.3 (vy w),
                                         uniform (-0.1) 0.1 (vz w))
                                   else (0.0, 0.0, 0.0))\<rparr>\<rparr>)" (is "_ = Inr ?s'")
    using apply_control_result [OF c] by blast
  moreover have "target_position ?s' = target_position (next_waypoint s u)" by simp
  moreover have "target_counter ?s' = target_counter (next_waypoint s u)" by simp
  ultimately show ?thesis by blast
qed

text \<open>
  C5. On a tick whose guidance runs in AUTO mode (\<open>apply_control\<close>, which returns
  normally): when the target is closer than 1.0, the target becomes the freshly drawn
  one, which lies in [-6, 6] x [-6, 6] x [2, 10] for samples of the unit interval, and
  \<open>target_counter\<close> goes up by exactly one; when the distance is at least 1.0, target
  and counter stay as they are. (That the draw is uniform is a statement about the
  generator and is not expressed here.)
\<close>

theorem apply_control_waypoint:
  assumes "control_mode s = AUTO" and "unit_samples u"
  shows "\<exists>s'. apply_control s u r w = Inr s' \<and>
     (distance_to_target s < 1.0 \<longrightarrow>
        target_position s' = generate_random_target u \<and>
        target_in_range (target_position s') \<and>
        target_counter s' = target_counter s + 1) \<and>
     (distance_to_target s \<ge> 1.0 \<longrightarrow>
        target_position s' = target_position s \<and>
        target_counter s' = target_counter s)"
proof -
  obtain s' where s': "apply_control s u r w = Inr s'"
      "target_position s' = target_position (next_waypoint s u)"
      "target_counter s' = target_counter (next_waypoint s u)"
    using apply_control_auto_target [OF assms(1)] by blast
  have "distance_to_target s < 1.0 \<longrightarrow>
        target_position s' = generate_random_target u \<and>
        target_in_range (target_position s') \<and>
        target_counter s' = target_counter s + 1"
    using s'(2,3) generate_random_target_in_range [OF assms(2)]
    by (simp add: next_waypoint_def)
  moreover have "distance_to_target s \<ge> 1.0 \<longrightarrow>
        target_position s' = target_position s \<and>
        target_counter s' = target_counter s"
    using s'(2,3) by (simp add: next_waypoint_def)
  ultimately show ?thesis using s'(1) by blast
qed

lemma near_state:
  "control_mode (toggle_control_mode (ControllableDrone (0, 0, 0)) (1 / 2, 1 / 2, 3 / 16)) = AUTO \<and>
   distance_to_target (toggle_control_mode (ControllableDrone (0, 0, 0)) (1 / 2, 1 / 2, 3 / 16)) < 1"
  by (simp add: toggle_control_mode_def ControllableDrone_def generate_random_target_def
      uniform_def distance_to_target_def linalg_norm_def vsub_def)

lemma far_state:
  "control_mode (toggle_control_mode (ControllableDrone (0, 0, 0)) (11 / 12, 1 / 2, 1 / 8)) = AUTO \<and>
   distance_to_target (toggle_control_mode (ControllableDrone (0, 0, 0)) (11 / 12, 1 / 2, 1 / 8)) = 5"
  by (simp add: toggle_control_mode_def ControllableDrone_def generate_random_target_def
      uniform_def distance_to_target_def linalg_norm_def vsub_def sqrt25)

theorem apply_control_waypoint_witness:
  "control_mode (toggle_control_mode (ControllableDrone (0, 0, 0)) (1 / 2, 1 / 2, 3 / 16)) = AUTO \<and>
   unit_samples (1 / 4, 1 / 2, 3 / 4) \<and>
   distance_to_target (toggle_control_mode (ControllableDrone (0, 0, 0)) (1 / 2, 1 / 2, 3 / 16)) < 1 \<and>
   (\<exists>s'. apply_control (toggle_control_mode (ControllableDrone (0, 0, 0)) (1 / 2, 1 / 2, 3 / 16))
           (1 / 4, 1 / 2, 3 / 4) (1 / 2) (0, 0, 0) = Inr s' \<and>
         target_position s' = (-3, 0, 8) \<and>
         target_counter s' = 1) \<and>
   control_mode (toggle_control_mode (ControllableDrone (0, 0, 0)) (11 / 12, 1 / 2, 1 / 8)) = AUTO \<and>
   distance_to_target (toggle_control_mode (ControllableDrone (0, 0, 0)) (11 / 12, 1 / 2, 1 / 8)) \<ge> 1 \<and>
   (\<exists>s'. apply_control (toggle_control_mode (ControllableDrone (0, 0, 0)) (11 / 12, 1 / 2, 1 / 8))
           (1 / 4, 1 / 2, 3 / 4) (1 / 2) (0, 0, 0) = Inr s' \<and>
         target_position s' = (5, 0, 3) \<and>
         target_counter s' = 0)"
proof -
  let ?A = "toggle_control_mode (ControllableDrone (0, 0, 0)) (1 / 2, 1 / 2, 3 / 16)"
  let ?B = "toggle_control_mode (ControllableDrone (0, 0, 0)) (11 / 12, 1 / 2, 1 / 8)"
  have u: "unit_samples (1 / 4, 1 / 2, 3 / 4)" by (simp add: unit_samples_def)
  have g: "generate_random_target (1 / 4, 1 / 2, 3 / 4) = (-3, 0, 8)"
    by (simp add: generate_random_target_def uniform_def)
  have ta: "target_counter ?A = 0"
    by (simp add: toggle_control_mode_def ControllableDrone_def)
  have tb: "target_counter ?B = 0 \<and> target_position ?B = (5, 0, 3)"
    by (simp add: toggle_control_mode_def ControllableDrone_def generate_random_target_def
        uniform_def)
  from near_state have a: "control_mode ?A = AUTO" and da: "distance_to_target ?A < 1" by simp_all
  from far_state have b: "control_mode ?B = AUTO" and db: "distance_to_target ?B \<ge> 1" by simp_all
  have 1: "\<exists>s'. apply_control ?A (1 / 4, 1 / 2, 3 / 4) (1 / 2) (0, 0, 0) = Inr s' \<and>
         target_position s' = (-3, 0, 8) \<and> target_counter s' = 1"
    using apply_control_waypoint [OF a u, of "1 / 2" "(0, 0, 0)"] da g ta by auto
  have 2: "\<exists>s'. apply_control ?B (1 / 4, 1 / 2, 3 / 4) (1 / 2) (0, 0, 0) = Inr s' \<and>
         target_position s' = (5, 0, 3) \<and> target_counter s' = 0"
    using apply_control_waypoint [OF b u, of "1 / 2" "(0, 0, 0)"] db tb by auto
  show ?thesis using a b u da db 1 2 by blast
qed

text \<open>
  C8. The normalisation of the direction is guarded: at a distance below 0.1 (and at 0.1
  itself) the direction is the zero vector and nothing is divided; at a distance above
  0.1 the direction is the offset to the target divided by that distance, which is not
  zero. The autopilot takes roll and pitch from this direction, computed on the state it
  returns, that is after a new target may have been drawn.
\<close>

theorem direction_guarded:
  "(distance_to_target s \<le> 0.1 \<longrightarrow> direction s = (0, 0, 0)) \<and>
   (distance_to_target s > 0.1 \<longrightarrow>
      distance_to_target s \<noteq> 0 \<and>
      direction s = vdiv (vsub (target_position s) (position s)) (distance_to_target s)) \<and>
   (control_mode s = AUTO \<longrightarrow>
      snd (auto_pilot s u) =
        (clip (9.81 + (vz (target_position (fst (auto_pilot s u))) -
                       vz (position (fst (auto_pilot s u)))) * 0.5) 5.0 20.0,
         vy (direction (fst (auto_pilot s u))) * 0.8,
         - vx (direction (fst (auto_pilot s u))) * 0.8,
         0))"
  by (simp add: direction_def Let_def auto_pilot_command auto_pilot_state)

theorem direction_guarded_witness:
  "distance_to_target (toggle_control_mode (ControllableDrone (0, 0, 0)) (1 / 2, 1 / 2, 1 / 8))
     \<le> 0.1 \<and>
   direction (toggle_control_mode (ControllableDrone (0, 0, 0)) (1 / 2, 1 / 2, 1 / 8)) = (0, 0, 0) \<and>
   distance_to_target (toggle_control_mode (ControllableDrone (0, 0, 0)) (11 / 12, 1 / 2, 1 / 8))
     > 0.1 \<and>
   direction (toggle_control_mode (ControllableDrone (0, 0, 0)) (11 / 12, 1 / 2, 1 / 8)) =
     vdiv (5, 0, 0) 5 \<and>
   control_mode (toggle_control_mode (ControllableDrone (0, 0, 0)) (11 / 12, 1 / 2, 1 / 8)) = AUTO \<and>
   snd (auto_pilot (toggle_control_mode (ControllableDrone (0, 0, 0)) (11 / 12, 1 / 2, 1 / 8))
          (0, 0, 0)) =
     (clip (9.81 + (vz (target_position (fst (auto_pilot
              (toggle_control_mode (ControllableDrone (0, 0, 0)) (11 / 12, 1 / 2, 1 / 8))
              (0, 0, 0)))) -
            vz (position (fst (auto_pilot
              (toggle_control_mode (ControllableDrone (0, 0, 0)) (11 / 12, 1 / 2, 1 / 8))
              (0, 0, 0))))) * 0.5) 5.0 20.0,
      vy (direction (fst (auto_pilot
              (toggle_control_mode (ControllableDrone (0, 0, 0)) (11 / 12, 1 / 2, 1 / 8))
              (0, 0, 0)))) * 0.8,
      - vx (direction (fst (auto_pilot
              (toggle_control_mode (ControllableDrone (0, 0, 0)) (11 / 12, 1 / 2, 1 / 8))
              (0, 0, 0)))) * 0.8,
      0)"
proof -
  let ?Z = "toggle_control_mode (ControllableDrone (0, 0, 0)) (1 / 2, 1 / 2, 1 / 8)"
  let ?B = "toggle_control_mode (ControllableDrone (0, 0, 0)) (11 / 12, 1 / 2, 1 / 8)"
  have z: "distance_to_target ?Z \<le> 0.1"
    by (simp add: toggle_control_mode_def ControllableDrone_def generate_random_target_def
        uniform_def distance_to_target_def linalg_norm_def vsub_def)
  from far_state have b: "control_mode ?B = AUTO" and d: "distance_to_target ?B = 5"
    by simp_all
  have o: "vsub (target_position ?B) (position ?B) = (5, 0, 0)"
    by (simp add: toggle_control_mode_def ControllableDrone_def generate_random_target_def
        uniform_def vsub_def)
  from d have g: "distance_to_target ?B > 0.1" by simp
  show ?thesis
    using z b g direction_guarded [of ?Z "(0, 0, 0)"] direction_guarded [of ?B "(0, 0, 0)"]
    by (simp only: o d)
qed

section \<open>The boundary and the integration step\<close>

lemma axis_repulsion_upper:
  "hi - 1 < p \<Longrightarrow> axis_repulsion p v lo hi = v + (p - (hi - 1)) * 3 \<and> v < axis_repulsion p v lo hi"
  by (simp add: axis_repulsion_def Let_def algebra_simps)

lemma axis_repulsion_lower:
  "p \<le> hi - 1 \<Longrightarrow> p < lo + 1 \<Longrightarrow>
   axis_repulsion p v lo hi = v - (lo + 1 - p) * 3 \<and> axis_repulsion p v lo hi < v"
  by (simp add: axis_repulsion_def Let_def algebra_simps)

text \<open>
  C1. Within the margin of 1.0 below an upper face \<open>repulsion_force\<close> is negative and is
  subtracted, so the velocity along the axis grows, towards the face
  (\<open>axis_repulsion_upper\<close>); below the margin above a lower face the velocity falls,
  again towards the face (\<open>axis_repulsion_lower\<close>). At the position (7.7, 0, 3) with
  \<open>x_max = 8\<close> and the drone at rest, \<open>enforce_area_limits\<close> leaves the velocity
  (2.1, 0, 0): the drone is pushed outward, not inward.
\<close>

theorem enforce_area_limits_pushes_outward:
  "velocity (enforce_area_limits ((ControllableDrone (0, 0, 0))\<lparr>position := (7.7, 0, 3)\<rparr>)) =
     (2.1, 0, 0)"
  by (simp add: enforce_area_limits_def ControllableDrone_def Let_def clip_def axis_repulsion_def)

lemma enforce_area_limits_position:
  "position (enforce_area_limits s) =
     (clip (vx (position s)) (x_min (area_limits s)) (x_max (area_limits s)),
      clip (vy (position s)) (y_min (area_limits s)) (y_max (area_limits s)),
      clip (vz (position s)) (z_min (area_limits s)) (z_max (area_limits s)))"
  by (simp add: enforce_area_limits_def Let_def)

lemma enforce_area_limits_within:
  assumes "valid_limits (area_limits s)"
  shows "within_limits (position (enforce_area_limits s)) (area_limits s)"
  using assms clip_bounds [of "x_min (area_limits s)" "x_max (area_limits s)" "vx (position s)"]
    clip_bounds [of "y_min (area_limits s)" "y_max (area_limits s)" "vy (position s)"]
    clip_bounds [of "z_min (area_limits s)" "z_max (area_limits s)" "vz (position s)"]
  by (simp add: enforce_area_limits_position within_limits_def valid_limits_def)

lemma enforce_area_limits_fields:
  "area_limits (enforce_area_limits s) = area_limits s \<and>
   orientation (enforce_area_limits s) = orientation s"
  by (simp add: enforce_area_limits_def Let_def)

lemma update_physics_position:
  "\<exists>s1. area_limits s1 = area_limits s \<and>
     position (update_physics s dt) = position (enforce_area_limits s1)"
proof -
  let ?max_angle = "pi / 4"
  let ?orientation1 = "clip3 (vadd (orientation s) (vscale (angular_velocity s) dt))
                           (- ?max_angle) ?max_angle"
  let ?rl = "vx ?orientation1"
  let ?pt = "vy ?orientation1"
  let ?thrust_vector = "vscale (sin ?pt * cos ?rl, - sin ?rl * cos ?pt, cos ?rl * cos ?pt)
                            (f_thrust (forces s))"
  let ?total_force = "vadd (vadd (vadd ?thrust_vector (0, 0, - f_gravity (forces s)))
                         (vscale (velocity s) (- 0.2))) (f_wind (forces s))"
  let ?velocity1 = "vadd (velocity s) (vscale ?total_force dt)"
  let ?position1 = "vadd (position s) (vscale ?velocity1 dt)"
  let ?s1 = "s\<lparr>orientation := ?orientation1,
                 linear_acceleration := ?total_force,
                 velocity := ?velocity1,
                 position := ?position1,
                 flight_time := flight_time s + dt,
                 distance_traveled :=
                   distance_traveled s + linalg_norm (vsub ?position1 (last_position s)),
                 last_position := ?position1,
                 max_altitude := max (max_altitude s) (vz ?position1),
                 max_speed := max (max_speed s) (linalg_norm ?velocity1)\<rparr>"
  have "position (update_physics s dt) = position (enforce_area_limits ?s1)"
    by (simp only: update_physics_def Let_def) simp
  moreover have "area_limits ?s1 = area_limits s" by simp
  ultimately show ?thesis by blast
qed

lemma update_physics_orientation:
  "orientation (update_physics s dt) =
     clip3 (vadd (orientation s) (vscale (angular_velocity s) dt)) (- (pi / 4)) (pi / 4)"
  by (simp only: update_physics_def Let_def) (simp add: enforce_area_limits_def Let_def)

lemma update_physics_area_limits: "area_limits (update_physics s dt) = area_limits s"
  by (simp only: update_physics_def Let_def) (simp add: enforce_area_limits_def Let_def)

lemma clip_angle_bounded: "\<bar>clip x (- (pi / 4)) (pi / 4)\<bar> \<le> pi / 4"
proof -
  have "- (pi / 4) \<le> clip x (- (pi / 4)) (pi / 4) \<and> clip x (- (pi / 4)) (pi / 4) \<le> pi / 4"
    by (rule clip_bounds) simp
  then show ?thesis by (intro abs_leI) linarith+
qed

lemma clip3_bounded: "orientation_bounded (clip3 a (- (pi / 4)) (pi / 4))"
  unfolding orientation_bounded_def clip3_def vx_tuple vy_tuple vz_tuple
  by (intro conjI clip_angle_bounded)

text \<open>
  C2. After \<open>update_physics\<close>, for every drone whose limits describe a box and for every
  \<open>dt\<close>: the limits are the same, the position lies within them on all three axes, and
  roll, pitch and yaw are at most \<open>pi / 4\<close> in absolute value. Thrust, angular velocity
  and wind are fields of the drone and are arbitrary.
\<close>

theorem update_physics_invariant:
  assumes "valid_limits (area_limits s)"
  shows "area_limits (update_physics s dt) = area_limits s \<and>
         within_limits (position (update_physics s dt)) (area_limits s) \<and>
         orientation_bounded (orientation (update_physics s dt))"
proof -
  obtain s1 where a: "area_limits s1 = area_limits s"
    and p: "position (update_physics s dt) = position (enforce_area_limits s1)"
    using update_physics_position by blast
  have "within_limits (position (enforce_area_limits s1)) (area_limits s1)"
    using assms a enforce_area_limits_within [of s1] by simp
  then have "within_limits (position (update_physics s dt)) (area_limits s)"
    by (simp add: a p)
  then show ?thesis
    by (simp add: update_physics_area_limits update_physics_orientation clip3_bounded)
qed

theorem update_physics_invariant_witness:
  "valid_limits (area_limits (ControllableDrone (0, 0, 0))) \<and>
   area_limits (update_physics (ControllableDrone (0, 0, 0)) 0.05) =
     area_limits (ControllableDrone (0, 0, 0)) \<and>
   within_limits (position (update_physics (ControllableDrone (0, 0, 0)) 0.05))
     (area_limits (ControllableDrone (0, 0, 0))) \<and>
   orientation_bounded (orientation (update_physics (ControllableDrone (0, 0, 0)) 0.05))"
proof -
  have v: "valid_limits (area_limits (ControllableDrone (0, 0, 0)))"
    by (simp add: valid_limits_def ControllableDrone_def)
  show ?thesis using v update_physics_invariant [OF v, of "0.05"] by blast
qed

section \<open>Hover at trim thrust\<close>

lemma clip_zero_angle: "clip 0 (- (pi / 4)) (pi / 4) = 0"
  by (simp add: clip_def)

lemma update_physics_at_rest:
  assumes "orientation s = (0, 0, 0)" and "angular_velocity s = (0, 0, 0)"
    and "velocity s = (0, 0, 0)" and "position s = (0, 0, 3)"
    and "f_thrust (forces s) = f_gravity (forces s)" and "f_wind (forces s) = (0, 0, 0)"
    and "area_limits s = \<lparr> x_min = -8.0, x_max = 8.0, y_min = -8.0, y_max = 8.0,
                           z_min = 0.5, z_max = 15.0 \<rparr>"
  shows "velocity (update_physics s dt) = (0, 0, 0) \<and> position (update_physics s dt) = (0, 0, 3)"
proof -
  define o1 where "o1 = clip3 (vadd (orientation s) (vscale (angular_velocity s) dt))
                           (- (pi / 4)) (pi / 4)"
  define tf where "tf = vadd (vadd (vadd
        (vscale (sin (vy o1) * cos (vx o1), - sin (vx o1) * cos (vy o1), cos (vx o1) * cos (vy o1))
           (f_thrust (forces s)))
        (0, 0, - f_gravity (forces s))) (vscale (velocity s) (- 0.2))) (f_wind (forces s))"
  define v1 where "v1 = vadd (velocity s) (vscale tf dt)"
  define p1 where "p1 = vadd (position s) (vscale v1 dt)"
  define s1 where "s1 = s\<lparr>orientation := o1,
                 linear_acceleration := tf,
                 velocity := v1,
                 position := p1,
                 flight_time := flight_time s + dt,
                 distance_traveled :=
                   distance_traveled s + linalg_norm (vsub p1 (last_position s)),
                 last_position := p1,
                 max_altitude := max (max_altitude s) (vz p1),
                 max_speed := max (max_speed s) (linalg_norm v1)\<rparr>"
  define s2 where "s2 = enforce_area_limits s1"
  have up: "update_physics s dt =
      s2\<lparr>velocity :=
          (axis_damping (vx (position s2)) (vx (velocity s2))
             (x_min (area_limits s2)) (x_max (area_limits s2)),
           axis_damping (vy (position s2)) (vy (velocity s2))
             (y_min (area_limits s2)) (y_max (area_limits s2)),
           axis_damping (vz (position s2)) (vz (velocity s2))
             (z_min (area_limits s2)) (z_max (area_limits s2)))\<rparr>"
    unfolding s2_def s1_def p1_def v1_def tf_def o1_def
    by (simp only: update_physics_def Let_def)
  have o1: "o1 = (0, 0, 0)"
    by (simp add: o1_def assms(1,2) vadd_def vscale_def clip3_def clip_zero_angle)
  have tf: "tf = (0, 0, 0)"
    by (simp add: tf_def o1 assms(3,5,6) vadd_def vscale_def)
  have v1: "v1 = (0, 0, 0)"
    by (simp add: v1_def tf assms(3) vadd_def vscale_def)
  have p1: "p1 = (0, 0, 3)"
    by (simp add: p1_def v1 assms(4) vadd_def vscale_def)
  have f1: "position s1 = (0, 0, 3)" "velocity s1 = (0, 0, 0)" "area_limits s1 = area_limits s"
    by (simp_all add: s1_def v1 p1)
  have f2: "position s2 = (0, 0, 3)" "velocity s2 = (0, 0, 0)" "area_limits s2 = area_limits s"
    by (simp_all add: s2_def enforce_area_limits_def Let_def f1 assms(7) clip_def
        axis_repulsion_def)
  show ?thesis
    by (simp add: up f2 assms(7) axis_damping_def)
qed

text \<open>
  C7. From the state the constructor builds (position (0, 0, 3), at rest, level),
  \<open>set_control_input(0, 0, 0, 0)\<close>, then \<open>apply_control\<close> on a tick without a gust (the
  sample of \<open>random.random()\<close> is at least 0.2), then \<open>update_physics(0.05)\<close>: all three
  calls return, and the velocity is (0, 0, 0); the vertical velocity is
  \<open>(9.81 - 9.81 - drag) * 0.05\<close> with a drag of 0.
\<close>

theorem hover_trim:
  assumes "r \<ge> 0.2"
  shows "\<exists>s1 s2. set_control_input (ControllableDrone u0) 0 0 0 0 = Inr s1 \<and>
           apply_control s1 u r w = Inr s2 \<and>
           velocity (update_physics s2 0.05) = (0, 0, 0) \<and>
           vz (velocity (update_physics s2 0.05)) = (9.81 - 9.81 - 0) * 0.05"
proof -
  let ?ci = "\<lparr> thrust = clip (9.81 + 0 * 2.0) 5.0 20.0,
                pitch = clip 0 (-0.5) 0.5,
                roll = clip 0 (-0.5) 0.5,
                yaw = clip 0 (-0.3) 0.3 \<rparr>"
  obtain t v where s1: "set_control_input (ControllableDrone u0) 0 0 0 0 =
     Inr ((ControllableDrone u0)\<lparr>control_input := ?ci,
            propeller_thrusts := t, propeller_speeds := v\<rparr>)" (is "_ = Inr ?s1")
    using set_control_input_result [of "ControllableDrone u0" 0 0 0 0] by blast
  have c: "control_command ?s1 u = (?s1, 9.81, 0, 0, 0)"
    by (simp add: control_command_def ControllableDrone_def clip_def)
  obtain t' v' where s2: "apply_control ?s1 u r w =
     Inr (?s1\<lparr>angular_velocity := vscale (0, 0, 0) 0.8,
            propeller_thrusts := t',
            propeller_speeds := v',
            forces := (forces ?s1)\<lparr>f_thrust := 9.81,
                        f_wind := (if r < 0.2
                                   then (uniform (-0.3) 0.3 (vx w), uniform (-0.3) 0.3 (vy w),
                                         uniform (-0.1) 0.1 (vz w))
                                   else (0.0, 0.0, 0.0))\<rparr>\<rparr>)" (is "_ = Inr ?s2")
    using apply_control_result [OF c, of r w] by blast
  have "velocity (update_physics ?s2 0.05) = (0, 0, 0) \<and>
        position (update_physics ?s2 0.05) = (0, 0, 3)"
    using assms
    by (intro update_physics_at_rest) (simp_all add: ControllableDrone_def vscale_def)
  then have "velocity (update_physics ?s2 0.05) = (0, 0, 0) \<and>
      vz (velocity (update_physics ?s2 0.05)) = (9.81 - 9.81 - 0) * 0.05"
    by simp
  with s1 s2 show ?thesis by blast
qed

theorem hover_trim_witness:
  "(0.5::real) \<ge> 0.2 \<and>
   (\<exists>s1 s2. set_control_input (ControllableDrone (0, 0, 0)) 0 0 0 0 = Inr s1 \<and>
           apply_control s1 (0, 0, 0) 0.5 (0, 0, 0) = Inr s2 \<and>
           velocity (update_physics s2 0.05) = (0, 0, 0) \<and>
           vz (velocity (update_physics s2 0.05)) = (9.81 - 9.81 - 0) * 0.05)"
proof -
  have h: "(0.5::real) \<ge> 0.2" by simp
  show ?thesis using h hover_trim [OF h, of "(0, 0, 0)" "(0, 0, 0)" "(0, 0, 0)"] by blast
qed

section \<open>Reset\<close>

lemma reset_session:
  "current_session_id (reset s bg ba new_id) =
     (if current_session_id s = Some 0 then Some 0 else Some new_id)"
  by (cases "current_session_id s")
    (simp_all add: reset_def Let_def calibrate_sensors_def start_data_logging_def
      stop_data_logging_def truthy_def)

lemma reset_fields:
  "position (reset s bg ba new_id) = (0, 0, 3) \<and>
   orientation (reset s bg ba new_id) = (0, 0, 0) \<and>
   velocity (reset s bg ba new_id) = (0, 0, 0) \<and>
   angular_velocity (reset s bg ba new_id) = (0, 0, 0) \<and>
   linear_acceleration (reset s bg ba new_id) = (0, 0, 0) \<and>
   control_input (reset s bg ba new_id) = \<lparr> thrust = 9.81, pitch = 0, roll = 0, yaw = 0 \<rparr> \<and>
   propeller_thrusts (reset s bg ba new_id) = (2.4525, 2.4525, 2.4525, 2.4525) \<and>
   propeller_speeds (reset s bg ba new_id) = (1000, 1000, 1000, 1000) \<and>
   flight_time (reset s bg ba new_id) = 0 \<and>
   distance_traveled (reset s bg ba new_id) = 0 \<and>
   last_position (reset s bg ba new_id) = (0, 0, 3) \<and>
   max_altitude (reset s bg ba new_id) = 0 \<and>
   max_speed (reset s bg ba new_id) = 0 \<and>
   target_counter (reset s bg ba new_id) = 0"
  by (simp add: reset_def Let_def calibrate_sensors_def start_data_logging_def
      stop_data_logging_def)

lemma reset_sensors:
  "sensor_noise (reset s bg ba new_id) = (sensor_noise s)\<lparr>bias_gyro := bg, bias_accel := ba\<rparr> \<and>
   sensor_calibration (reset s bg ba new_id) = sensor_calibration s"
  by (simp add: reset_def Let_def calibrate_sensors_def start_data_logging_def
      stop_data_logging_def)

lemma reset_kept:
  "control_mode (reset s bg ba new_id) = control_mode s \<and>
   target_position (reset s bg ba new_id) = target_position s \<and>
   forces (reset s bg ba new_id) = forces s \<and>
   area_limits (reset s bg ba new_id) = area_limits s \<and>
   propeller_max_thrust (reset s bg ba new_id) = propeller_max_thrust s \<and>
   propeller_efficiency (reset s bg ba new_id) = propeller_efficiency s"
  by (simp add: reset_def Let_def calibrate_sensors_def start_data_logging_def
      stop_data_logging_def)

lemma reset_last_wins:
  assumes "new_id \<noteq> 0"
  shows "reset (reset s bg ba new_id) bg' ba' new_id' = reset s bg' ba' new_id'"
  using assms
  by (intro drone.equality)
    (simp_all add: reset_fields reset_sensors reset_kept reset_session)

text \<open>
  C4, as amended. \<open>reset\<close> sets position (0, 0, 3), zero orientation, velocity, angular
  velocity and acceleration, the control input (9.81, 0, 0, 0), the propeller thrusts
  2.4525 and speeds 1000, and zeroes the statistics and the waypoint counter; it
  recalibrates, that is it replaces the two sensor biases by fresh draws and leaves
  the scales alone. Two calls in a row leave the state of one call, the one made with
  the draws and the session id of the second: of the first call nothing remains. (The
  database numbers its sessions from 1, so the id of the first call is not 0.)
\<close>

theorem reset_defaults_idempotent:
  "position (reset s bg ba new_id) = (0, 0, 3) \<and>
   orientation (reset s bg ba new_id) = (0, 0, 0) \<and>
   velocity (reset s bg ba new_id) = (0, 0, 0) \<and>
   angular_velocity (reset s bg ba new_id) = (0, 0, 0) \<and>
   linear_acceleration (reset s bg ba new_id) = (0, 0, 0) \<and>
   control_input (reset s bg ba new_id) = \<lparr> thrust = 9.81, pitch = 0, roll = 0, yaw = 0 \<rparr> \<and>
   propeller_thrusts (reset s bg ba new_id) = (2.4525, 2.4525, 2.4525, 2.4525) \<and>
   propeller_speeds (reset s bg ba new_id) = (1000, 1000, 1000, 1000) \<and>
   flight_time (reset s bg ba new_id) = 0 \<and>
   distance_traveled (reset s bg ba new_id) = 0 \<and>
   last_position (reset s bg ba new_id) = (0, 0, 3) \<and>
   max_altitude (reset s bg ba new_id) = 0 \<and>
   max_speed (reset s bg ba new_id) = 0 \<and>
   target_counter (reset s bg ba new_id) = 0 \<and>
   sensor_noise (reset s bg ba new_id) = (sensor_noise s)\<lparr>bias_gyro := bg, bias_accel := ba\<rparr> \<and>
   sensor_calibration (reset s bg ba new_id) = sensor_calibration s \<and>
   (new_id \<noteq> 0 \<longrightarrow>
      reset (reset s bg ba new_id) bg' ba' new_id' = reset s bg' ba' new_id')"
  using reset_fields [of s bg ba new_id] reset_sensors [of s bg ba new_id]
    reset_last_wins [of new_id s bg ba bg' ba' new_id']
  by blast

theorem reset_defaults_idempotent_witness:
  "(1::int) \<noteq> 0 \<and>
   reset (reset (toggle_control_mode (ControllableDrone (0, 0, 0)) (0, 0, 0))
            (0, 0, 0) (0, 0, 0) 1) (1, 0, 0) (0, 0, 0) 2 =
     reset (toggle_control_mode (ControllableDrone (0, 0, 0)) (0, 0, 0)) (1, 0, 0) (0, 0, 0) 2"
proof -
  have h: "(1::int) \<noteq> 0" by simp
  show ?thesis
    using h reset_defaults_idempotent
      [of "toggle_control_mode (ControllableDrone (0, 0, 0)) (0, 0, 0)"
        "(0, 0, 0)" "(0, 0, 0)" 1 "(1, 0, 0)" "(0, 0, 0)" 2]
    by blast
qed

text \<open>
  C4, as stated, fails: the constructor's mode is MANUAL, but a drone that was switched
  to AUTO is still in AUTO after \<open>reset\<close>; and two calls of \<open>reset\<close> whose
  calibrations draw different biases do not give the state of the first call.
\<close>

theorem reset_counterexample:
  "control_mode (ControllableDrone (0, 0, 0)) = MANUAL \<and>
   control_mode (reset (toggle_control_mode (ControllableDrone (0, 0, 0)) (0, 0, 0))
                   (0, 0, 0) (0, 0, 0) 1) = AUTO \<and>
   reset (reset (ControllableDrone (0, 0, 0)) (0, 0, 0) (0, 0, 0) 1) (1, 0, 0) (0, 0, 0) 2 \<noteq>
     reset (ControllableDrone (0, 0, 0)) (0, 0, 0) (0, 0, 0) 1"
proof -
  have "bias_gyro (sensor_noise
          (reset (reset (ControllableDrone (0, 0, 0)) (0, 0, 0) (0, 0, 0) 1) (1, 0, 0) (0, 0, 0) 2)) \<noteq>
        bias_gyro (sensor_noise (reset (ControllableDrone (0, 0, 0)) (0, 0, 0) (0, 0, 0) 1))"
    by (simp add: reset_sensors)
  then have "reset (reset (ControllableDrone (0, 0, 0)) (0, 0, 0) (0, 0, 0) 1) (1, 0, 0) (0, 0, 0) 2 \<noteq>
     reset (ControllableDrone (0, 0, 0)) (0, 0, 0) (0, 0, 0) 1"
    by metis
  then show ?thesis
    by (simp add: reset_kept toggle_control_mode_def ControllableDrone_def)
qed

section \<open>Rounding in the mixer\<close>

lemma f64_scaled:
  assumes "2 ^ 52 \<le> \<bar>x\<bar> * 2 ^ n" and "\<bar>x\<bar> * 2 ^ n < 2 ^ 53"
  shows "f64 x = of_int (rne (x * 2 ^ n)) / 2 ^ n"
proof -
  have x: "x \<noteq> 0" using assms(1) by auto
  then have pos: "0 < \<bar>x\<bar>" by simp
  have "(2::real) powr (of_int (52 - int n)) = 2 powr (52 - real n)" by simp
  also have "\<dots> = 2 powr 52 / 2 powr (real n)" by (rule powr_diff)
  also have "\<dots> = 2 ^ 52 / 2 ^ n" by (simp add: powr_realpow)
  finally have p: "(2::real) powr (of_int (52 - int n)) = 2 ^ 52 / 2 ^ n" .
  have "(2::real) powr (of_int (52 - int n) + 1) = 2 powr (of_int (52 - int n)) * 2 powr 1"
    by (rule powr_add)
  also have "\<dots> = 2 ^ 53 / 2 ^ n" by (simp only: p) simp
  finally have p1: "(2::real) powr (of_int (52 - int n) + 1) = 2 ^ 53 / 2 ^ n" .
  have lo: "(2::real) powr (of_int (52 - int n)) \<le> \<bar>x\<bar>"
    unfolding p using assms(1) by (simp add: pos_divide_le_eq)
  have hi: "\<bar>x\<bar> < (2::real) powr (of_int (52 - int n) + 1)"
    unfolding p1 using assms(2) by (simp add: pos_less_divide_eq)
  have "\<lfloor>log 2 \<bar>x\<bar>\<rfloor> = 52 - int n"
    using floor_log_eq_powr_iff [OF pos, of 2 "52 - int n"] lo hi by simp
  then have "2 powr (of_int \<lfloor>log 2 \<bar>x\<bar>\<rfloor> - 52) = 1 / (2::real) ^ n"
    by (simp add: powr_minus powr_realpow inverse_eq_divide)
  then show ?thesis using x by (simp add: f64_def Let_def)
qed

lemma d03: "f64 (3 / 10) = 5404319552844595 / 2 ^ 54"
  by (subst f64_scaled [of _ 54]) (simp_all add: rne_def Let_def)


lemma rne_error: "\<bar>of_int (rne y) - y\<bar> \<le> 1 / 2"
proof -
  have "of_int \<lfloor>y\<rfloor> \<le> y" and "y < of_int \<lfloor>y\<rfloor> + 1" by linarith+
  then show ?thesis by (auto simp add: rne_def Let_def abs_le_iff)
qed

lemma f64_error: "\<bar>f64 x - x\<bar> \<le> unit_roundoff * \<bar>x\<bar>"
proof (cases "x = 0")
  case True
  then show ?thesis by (simp add: f64_def)
next
  case False
  define e where "e = \<lfloor>log 2 \<bar>x\<bar>\<rfloor>"
  define q :: real where "q = 2 powr (of_int e - 52)"
  have pos: "0 < \<bar>x\<bar>" using False by simp
  have q: "0 < q" by (simp add: q_def)
  have "2 powr (of_int e) \<le> \<bar>x\<bar>"
    using floor_log_eq_powr_iff [OF pos, of 2 e] by (simp add: e_def)
  moreover have "q = 2 powr (of_int e) / 2 ^ 52"
    unfolding q_def by (subst powr_diff) simp
  ultimately have qx: "q / 2 \<le> unit_roundoff * \<bar>x\<bar>"
    by (simp add: unit_roundoff_def)
  have "f64 x - x = (of_int (rne (x / q)) - x / q) * q"
    using False q by (simp add: f64_def Let_def e_def q_def algebra_simps)
  then have "\<bar>f64 x - x\<bar> = \<bar>of_int (rne (x / q)) - x / q\<bar> * q"
    using q by (simp add: abs_mult)
  also have "\<dots> \<le> 1 / 2 * q"
    using rne_error [of "x / q"] q by (intro mult_right_mono) simp_all
  finally show ?thesis using qx by simp
qed

lemma unit_roundoff_pos: "0 < unit_roundoff"
  by (simp add: unit_roundoff_def)

lemma within_roundings_exact: "\<bar>v\<bar> \<le> m \<Longrightarrow> within_roundings 0 m v v"
  by (simp add: within_roundings_def)

lemma within_roundings_mono:
  assumes "within_roundings k m v' v" and "k \<le> k'"
  shows "within_roundings k' m v' v"
proof -
  have m: "0 \<le> m" using assms(1) unfolding within_roundings_def by linarith
  have "(1 + unit_roundoff) ^ k \<le> (1 + unit_roundoff) ^ k'"
    using assms(2) unit_roundoff_pos by (intro power_increasing) simp_all
  then have "((1 + unit_roundoff) ^ k - 1) * m \<le> ((1 + unit_roundoff) ^ k' - 1) * m"
    using m by (intro mult_right_mono) simp_all
  then show ?thesis using assms(1) unfolding within_roundings_def by linarith
qed

lemma within_roundings_f64:
  assumes "within_roundings k m v' v"
  shows "within_roundings (Suc k) m (f64 v') v"
proof -
  let ?u = unit_roundoff
  from assms have a: "\<bar>v' - v\<bar> \<le> ((1 + ?u) ^ k - 1) * m" and b: "\<bar>v\<bar> \<le> m"
    unfolding within_roundings_def by simp_all
  have "\<bar>v'\<bar> \<le> \<bar>v\<bar> + \<bar>v' - v\<bar>" by linarith
  also have "\<dots> \<le> m + ((1 + ?u) ^ k - 1) * m" using a b by linarith
  also have "\<dots> = (1 + ?u) ^ k * m" by (simp add: algebra_simps)
  finally have v': "\<bar>v'\<bar> \<le> (1 + ?u) ^ k * m" .
  have "\<bar>f64 v' - v'\<bar> \<le> ?u * \<bar>v'\<bar>" by (rule f64_error)
  also have "\<dots> \<le> ?u * ((1 + ?u) ^ k * m)"
    using v' unit_roundoff_pos by (intro mult_left_mono) simp_all
  finally have c: "\<bar>f64 v' - v'\<bar> \<le> ?u * ((1 + ?u) ^ k * m)" .
  have "\<bar>f64 v' - v\<bar> \<le> \<bar>f64 v' - v'\<bar> + \<bar>v' - v\<bar>" by linarith
  also have "\<dots> \<le> ?u * ((1 + ?u) ^ k * m) + ((1 + ?u) ^ k - 1) * m" using a c by linarith
  also have "\<dots> = ((1 + ?u) ^ Suc k - 1) * m" by (simp add: algebra_simps)
  finally show ?thesis using b unfolding within_roundings_def by simp
qed

lemma within_roundings_add:
  assumes "within_roundings k m1 a' a" and "within_roundings k m2 b' b"
  shows "within_roundings k (m1 + m2) (a' + b') (a + b)"
proof -
  let ?c = "(1 + unit_roundoff) ^ k - 1"
  from assms have "\<bar>a' - a\<bar> \<le> ?c * m1" "\<bar>a\<bar> \<le> m1" "\<bar>b' - b\<bar> \<le> ?c * m2" "\<bar>b\<bar> \<le> m2"
    unfolding within_roundings_def by simp_all
  then have "\<bar>(a' + b') - (a + b)\<bar> \<le> ?c * m1 + ?c * m2" and "\<bar>a + b\<bar> \<le> m1 + m2"
    by linarith+
  then show ?thesis unfolding within_roundings_def by (simp add: algebra_simps)
qed

lemma within_roundings_sub:
  assumes "within_roundings k m1 a' a" and "within_roundings k m2 b' b"
  shows "within_roundings k (m1 + m2) (a' - b') (a - b)"
proof -
  let ?c = "(1 + unit_roundoff) ^ k - 1"
  from assms have "\<bar>a' - a\<bar> \<le> ?c * m1" "\<bar>a\<bar> \<le> m1" "\<bar>b' - b\<bar> \<le> ?c * m2" "\<bar>b\<bar> \<le> m2"
    unfolding within_roundings_def by simp_all
  then have "\<bar>(a' - b') - (a - b)\<bar> \<le> ?c * m1 + ?c * m2" and "\<bar>a - b\<bar> \<le> m1 + m2"
    by linarith+
  then show ?thesis unfolding within_roundings_def by (simp add: algebra_simps)
qed

lemma within_roundings_scale:
  assumes "within_roundings k m a' a"
  shows "within_roundings k (\<bar>c\<bar> * m) (c * a') (c * a)"
proof -
  let ?c = "(1 + unit_roundoff) ^ k - 1"
  from assms have x: "\<bar>a' - a\<bar> \<le> ?c * m" and y: "\<bar>a\<bar> \<le> m"
    unfolding within_roundings_def by simp_all
  have "\<bar>c * a' - c * a\<bar> = \<bar>c\<bar> * \<bar>a' - a\<bar>" by (simp add: abs_mult flip: right_diff_distrib)
  also have "\<dots> \<le> \<bar>c\<bar> * (?c * m)" using x by (intro mult_left_mono) simp_all
  finally have "\<bar>c * a' - c * a\<bar> \<le> ?c * (\<bar>c\<bar> * m)" by (simp add: algebra_simps)
  moreover have "\<bar>c * a\<bar> \<le> \<bar>c\<bar> * m" using y by (simp add: abs_mult mult_left_mono)
  ultimately show ?thesis unfolding within_roundings_def by simp
qed


lemma within_roundings_fadd:
  assumes "within_roundings k m1 a' a" and "within_roundings k m2 b' b"
  shows "within_roundings (Suc k) (m1 + m2) (fadd a' b') (a + b)"
  unfolding fadd_def by (intro within_roundings_f64 within_roundings_add assms)

lemma within_roundings_fsub:
  assumes "within_roundings k m1 a' a" and "within_roundings k m2 b' b"
  shows "within_roundings (Suc k) (m1 + m2) (fsub a' b') (a - b)"
  unfolding fsub_def by (intro within_roundings_f64 within_roundings_sub assms)

lemma roundoff_general:
  fixes u :: real
  assumes "0 \<le> u" and "u \<le> 1 / 8"
  shows "(1 + u) ^ 4 - 1 \<le> 5 * u"
proof -
  have a: "u * u \<le> 1 / 8 * u" using mult_right_mono [OF assms(2) assms(1)] .
  have "u * u * u \<le> 1 / 8 * u * u" using mult_right_mono [OF a assms(1)] .
  also have "\<dots> = 1 / 8 * (u * u)" by simp
  also have "\<dots> \<le> 1 / 8 * (1 / 8 * u)" using a by linarith
  finally have b: "u * u * u \<le> 1 / 64 * u" by simp
  have "u * u * u * u \<le> 1 / 64 * u * u" using mult_right_mono [OF b assms(1)] .
  also have "\<dots> = 1 / 64 * (u * u)" by simp
  also have "\<dots> \<le> 1 / 64 * (1 / 8 * u)" using a by linarith
  finally have c: "u * u * u * u \<le> 1 / 512 * u" by simp
  have "(1 + u) ^ 4 = 1 + 4 * u + 6 * (u * u) + 4 * (u * u * u) + u * u * u * u"
    by (simp add: power4_eq_xxxx algebra_simps)
  then show ?thesis using a b c assms(1) by linarith
qed

lemma roundoff_four: "(1 + unit_roundoff) ^ 4 - 1 \<le> 5 * unit_roundoff"
  by (rule roundoff_general) (simp_all add: unit_roundoff_def)

lemma mixed_thrusts_f64_error:
  "\<bar>sum4 (mixed_thrusts_f64 T r p y) - T\<bar> \<le>
     20 * unit_roundoff * (\<bar>T\<bar> / 4 + \<bar>r\<bar> / 2 + \<bar>p\<bar> / 2 + 3 / 10 * \<bar>y\<bar>)"
proof -
  define b where "b = fdiv T 4.0"
  define rc where "rc = fmul r 0.5"
  define pc where "pc = fmul p 0.5"
  define yc where "yc = fmul y (f64 0.3)"
  define A where "A = \<bar>T\<bar> / 4"
  define R where "R = \<bar>r\<bar> / 2"
  define P where "P = \<bar>p\<bar> / 2"
  define Y where "Y = 3 / 10 * \<bar>y\<bar>"
  define M where "M = A + R + P + Y"
  let ?one = "Suc 0"
  let ?two = "Suc (Suc 0)"
  let ?three = "Suc (Suc (Suc 0))"
  let ?four = "Suc (Suc (Suc (Suc 0)))"
  have b1: "within_roundings ?one A b (T / 4)"
    unfolding b_def fdiv_def A_def
    by (intro within_roundings_f64) (simp add: within_roundings_exact)
  have rc1: "within_roundings ?one R rc (r / 2)"
    unfolding rc_def fmul_def R_def
    by (intro within_roundings_f64) (simp add: within_roundings_exact)
  have pc1: "within_roundings ?one P pc (p / 2)"
    unfolding pc_def fmul_def P_def
    by (intro within_roundings_f64) (simp add: within_roundings_exact)
  have "within_roundings ?one (3 / 10) (f64 0.3) (3 / 10)"
    by (intro within_roundings_f64) (simp add: within_roundings_exact)
  from within_roundings_scale [OF this, of y]
  have "within_roundings ?one Y (y * f64 0.3) (3 / 10 * y)"
    by (simp add: Y_def mult.commute)
  then have yc2: "within_roundings ?two Y yc (3 / 10 * y)"
    unfolding yc_def fmul_def by (rule within_roundings_f64)
  have pc2: "within_roundings ?two P pc (p / 2)"
    by (rule within_roundings_mono [OF pc1]) simp
  have yc3: "within_roundings ?three Y yc (3 / 10 * y)"
    by (rule within_roundings_mono [OF yc2]) simp
  have t0: "within_roundings ?four (A + R + P + Y) (fsub (fadd (fsub b rc) pc) yc)
      (T / 4 - r / 2 + p / 2 - 3 / 10 * y)"
    by (intro within_roundings_fsub within_roundings_fadd b1 rc1 pc2 yc3)
  have t1: "within_roundings ?four (A + R + P + Y) (fsub (fsub (fadd b rc) pc) yc)
      (T / 4 + r / 2 - p / 2 - 3 / 10 * y)"
    by (intro within_roundings_fsub within_roundings_fadd b1 rc1 pc2 yc3)
  have t2: "within_roundings ?four (A + R + P + Y) (fadd (fadd (fadd b rc) pc) yc)
      (T / 4 + r / 2 + p / 2 + 3 / 10 * y)"
    by (intro within_roundings_fsub within_roundings_fadd b1 rc1 pc2 yc3)
  have t3: "within_roundings ?four (A + R + P + Y) (fadd (fsub (fsub b rc) pc) yc)
      (T / 4 - r / 2 - p / 2 + 3 / 10 * y)"
    by (intro within_roundings_fsub within_roundings_fadd b1 rc1 pc2 yc3)
  let ?c = "(1 + unit_roundoff) ^ 4 - 1"
  have four: "(1 + unit_roundoff) ^ ?four = (1 + unit_roundoff) ^ 4"
    by (simp add: eval_nat_numeral)
  have M0: "0 \<le> M" by (simp add: M_def A_def R_def P_def Y_def)
  have e: "\<bar>fsub (fadd (fsub b rc) pc) yc - (T / 4 - r / 2 + p / 2 - 3 / 10 * y)\<bar> \<le> ?c * M"
      "\<bar>fsub (fsub (fadd b rc) pc) yc - (T / 4 + r / 2 - p / 2 - 3 / 10 * y)\<bar> \<le> ?c * M"
      "\<bar>fadd (fadd (fadd b rc) pc) yc - (T / 4 + r / 2 + p / 2 + 3 / 10 * y)\<bar> \<le> ?c * M"
      "\<bar>fadd (fsub (fsub b rc) pc) yc - (T / 4 - r / 2 - p / 2 + 3 / 10 * y)\<bar> \<le> ?c * M"
    using t0 t1 t2 t3 unfolding within_roundings_def four M_def by simp_all
  have s: "sum4 (mixed_thrusts_f64 T r p y) =
      fsub (fadd (fsub b rc) pc) yc + fsub (fsub (fadd b rc) pc) yc +
      fadd (fadd (fadd b rc) pc) yc + fadd (fsub (fsub b rc) pc) yc"
    by (simp add: sum4_def mixed_thrusts_f64_def Let_def b_def rc_def pc_def yc_def)
  have "\<bar>sum4 (mixed_thrusts_f64 T r p y) - T\<bar> \<le> 4 * (?c * M)"
    unfolding s using e by linarith
  also have "\<dots> \<le> 4 * (5 * unit_roundoff * M)"
    using roundoff_four M0 by (intro mult_left_mono mult_right_mono) simp_all
  finally show ?thesis by (simp add: M_def A_def R_def P_def Y_def)
qed

lemma f64_literal_03: "f64 (3 / 10) = 5404319552844595 / 2 ^ 54"
  by (subst f64_scaled [of _ 54]) (simp_all add: rne_def Let_def)

lemma f64_two: "f64 2 = 2"
  by (subst f64_scaled [of _ 51]) (simp_all add: rne_def Let_def)

lemma f64_yaw_correction: "f64 (5404319552844595 / 2 ^ 58) = 5404319552844595 / 2 ^ 58"
  by (subst f64_scaled [of _ 58]) (simp_all add: rne_def Let_def)

lemma f64_low: "f64 (2 - 5404319552844595 / 2 ^ 58) = 8922756761727795 / 2 ^ 52"
  by (subst f64_scaled [of _ 52]) (simp_all add: rne_def Let_def)

lemma f64_high: "f64 (2 + 5404319552844595 / 2 ^ 58) = 2272910436938547 / 2 ^ 50"
  by (subst f64_scaled [of _ 51]) (simp_all add: rne_def Let_def)

lemma mixed_thrusts_f64_example:
  "mixed_thrusts_f64 8 0 0 (1 / 16) =
     (8922756761727795 / 2 ^ 52, 8922756761727795 / 2 ^ 52,
      2272910436938547 / 2 ^ 50, 2272910436938547 / 2 ^ 50)"
proof -
  have "(8::real) / 4.0 = 2" by simp
  then have b: "fdiv 8 4.0 = 2" unfolding fdiv_def using f64_two by (simp only:)
  have z: "fmul 0 0.5 = 0" by (simp add: fmul_def f64_def)
  have "f64 0.3 = f64 (3 / 10)" by simp
  then have "1 / 16 * f64 0.3 = 5404319552844595 / 2 ^ 58"
    by (simp only: f64_literal_03) simp
  then have y: "fmul (1 / 16) (f64 0.3) = 5404319552844595 / 2 ^ 58"
    unfolding fmul_def using f64_yaw_correction by (simp only:)
  have "(2::real) - 0 = 2" "(2::real) + 0 = 2" by simp_all
  then have s: "fsub 2 0 = 2" "fadd 2 0 = 2"
    unfolding fsub_def fadd_def using f64_two by (simp_all only:)
  have l: "fsub 2 (5404319552844595 / 2 ^ 58) = 8922756761727795 / 2 ^ 52"
    unfolding fsub_def by (rule f64_low)
  have h: "fadd 2 (5404319552844595 / 2 ^ 58) = 2272910436938547 / 2 ^ 50"
    unfolding fadd_def by (rule f64_high)
  show ?thesis
    by (simp only: mixed_thrusts_f64_def Let_def b z y s l h)
qed

lemma f64_sum1:
  "f64 (8922756761727795 / 2 ^ 52 + 8922756761727795 / 2 ^ 52) = 8922756761727795 / 2 ^ 51"
  by (subst f64_scaled [of _ 51]) (simp_all add: rne_def Let_def)

lemma f64_sum2:
  "f64 (8922756761727795 / 2 ^ 51 + 2272910436938547 / 2 ^ 50) = 1683572204450611 / 2 ^ 48"
  by (subst f64_scaled [of _ 50]) (simp_all add: rne_def Let_def)

lemma f64_sum3:
  "f64 (1683572204450611 / 2 ^ 48 + 2272910436938547 / 2 ^ 50) = 9007199254740991 / 2 ^ 50"
  by (subst f64_scaled [of _ 50]) (simp_all add: rne_def Let_def)

lemma fsum4_example:
  "fsum4 (8922756761727795 / 2 ^ 52, 8922756761727795 / 2 ^ 52,
          2272910436938547 / 2 ^ 50, 2272910436938547 / 2 ^ 50) = 9007199254740991 / 2 ^ 50"
  by (simp only: fsum4_def prod.case fadd_def f64_sum1 f64_sum2 f64_sum3)

text \<open>
  C10, as stated, fails on doubles. For the valid command with thrust 8, roll 0,
  pitch 0 and yaw 0.0625 the four thrusts are 1.98125 twice and 2.01875 twice, each
  rounded; they add up to \<open>8 - 2^-51\<close>, and added up in doubles to \<open>8 - 2^-50\<close>, not to 8.
\<close>

theorem mixed_thrusts_f64_counterexample:
  "sum4 (mixed_thrusts_f64 8 0 0 (1 / 16)) \<noteq> 8 \<and>
   fsum4 (mixed_thrusts_f64 8 0 0 (1 / 16)) \<noteq> 8"
proof -
  have "fsum4 (mixed_thrusts_f64 8 0 0 (1 / 16)) = 9007199254740991 / 2 ^ 50"
    by (simp only: mixed_thrusts_f64_example fsum4_example)
  then show ?thesis by (simp add: mixed_thrusts_f64_example sum4_def)
qed

text \<open>
  C10, as amended. In exact arithmetic the four thrusts that the mixer builds from
  \<open>total_thrust / 4\<close> and the roll, pitch and yaw corrections, before the efficiencies
  and the clipping, add up to \<open>total_thrust\<close>: the corrections cancel in pairs. In
  doubles each thrust is the result of up to four roundings in a row, and the sum of the
  four differs from \<open>total_thrust\<close> by at most \<open>20 * 2^-53\<close> times
  \<open>|total_thrust| / 4 + |roll| / 2 + |pitch| / 2 + 0.3 * |yaw|\<close>, which for a valid
  command is less than \<open>1.3 * 10^-14\<close>.
\<close>

theorem mixed_thrusts_sum:
  "sum4 (mixed_thrusts total_thrust rl pt yw) = total_thrust \<and>
   \<bar>sum4 (mixed_thrusts_f64 total_thrust rl pt yw) - total_thrust\<bar> \<le>
     20 * unit_roundoff *
       (\<bar>total_thrust\<bar> / 4 + \<bar>rl\<bar> / 2 + \<bar>pt\<bar> / 2 + 3 / 10 * \<bar>yw\<bar>)"
proof
  show "sum4 (mixed_thrusts total_thrust rl pt yw) = total_thrust"
    by (simp add: sum4_def mixed_thrusts_def Let_def)
  show "\<bar>sum4 (mixed_thrusts_f64 total_thrust rl pt yw) - total_thrust\<bar> \<le>
     20 * unit_roundoff *
       (\<bar>total_thrust\<bar> / 4 + \<bar>rl\<bar> / 2 + \<bar>pt\<bar> / 2 + 3 / 10 * \<bar>yw\<bar>)"
    by (rule mixed_thrusts_f64_error)
qed

end
